theory Spec2Isabelle
  imports Main "HOL-Library.Word"
begin

unbundle bit_operations_syntax

section \<open>Values shared by the box code and the status bar\<close>

text \<open>
  Pixel coordinates are C \<open>int\<close>s. Signed overflow is undefined in C and pixel values
  are far from the limits, so coordinates are modelled as \<open>int\<close>. The only divisions
  in the code are C divisions, which truncate towards zero.
\<close>

definition cdiv :: "int \<Rightarrow> int \<Rightarrow> int" where
  "cdiv a b = (if (a < 0) = (b < 0) then \<bar>a\<bar> div \<bar>b\<bar> else - (\<bar>a\<bar> div \<bar>b\<bar>))"

text \<open>\<open>Flags\<close> and \<open>Color\<close> are 32-bit values.\<close>

type_synonym flags = "32 word"
type_synonym color = "32 word"

text \<open>
  The values of the flag bits (fltk/Flags.h), of \<open>GRAY00\<close> (fltk/Color.h) and of the
  line style \<open>DOT\<close> (fltk/draw.h), and the signedness of plain \<open>char\<close> on the
  platform, are not part of the sources at hand. They are taken as parameters: every
  function that uses one receives this record.
\<close>

record fltk_consts =
  FOCUSED :: flags
  PUSHED :: flags
  VALUE :: flags
  HIGHLIGHT :: flags
  SELECTED :: flags
  INACTIVE :: flags
  INVISIBLE :: flags
  ALIGN_LEFT :: flags
  ALIGN_INSIDE :: flags
  GRAY00 :: int
  DOT :: int
  char_is_signed :: bool

text \<open>
  A C string is the bytes a \<open>char*\<close> points at, up to the first NUL. A HOL string
  \<open>s\<close> stands for the array holding the bytes of \<open>s\<close> followed by a NUL byte.
\<close>

definition NUL :: char where
  "NUL = CHR 0x00"

definition strlen :: "string \<Rightarrow> nat" where
  "strlen s = length (takeWhile (\<lambda>c. c \<noteq> NUL) s)"

text \<open>The value of a \<open>char\<close> once promoted to \<open>int\<close>.\<close>

definition char_val :: "fltk_consts \<Rightarrow> char \<Rightarrow> int" where
  "char_val K c =
     (if char_is_signed K \<and> 128 \<le> (of_char c :: int) then of_char c - 256 else of_char c)"

subsection \<open>Rectangle\<close>

record rectangle =
  rect_x :: int
  rect_y :: int
  rect_w :: int
  rect_h :: int

text \<open>
  Modelled from the spec: the methods of \<open>fltk::Rectangle\<close> (fltk/Rectangle.h is
  missing). The right and bottom edges are \<open>x + w\<close> and \<open>y + h\<close>; a rectangle is
  empty when its width or height is not positive; \<open>move_x\<close> and \<open>move_y\<close> move the
  left and top edge and keep the opposite edge, \<open>move_r\<close> and \<open>move_b\<close> move the
  right and bottom edge.
\<close>

definition rect_r :: "'a rectangle_scheme \<Rightarrow> int" where
  "rect_r r = rect_x r + rect_w r"

definition rect_b :: "'a rectangle_scheme \<Rightarrow> int" where
  "rect_b r = rect_y r + rect_h r"

definition rect_empty :: "'a rectangle_scheme \<Rightarrow> bool" where
  "rect_empty r = (rect_w r \<le> 0 \<or> rect_h r \<le> 0)"

definition move_x :: "int \<Rightarrow> rectangle \<Rightarrow> rectangle" where
  "move_x d r = r\<lparr>rect_x := rect_x r + d, rect_w := rect_w r - d\<rparr>"

definition move_y :: "int \<Rightarrow> rectangle \<Rightarrow> rectangle" where
  "move_y d r = r\<lparr>rect_y := rect_y r + d, rect_h := rect_h r - d\<rparr>"

definition move_r :: "int \<Rightarrow> rectangle \<Rightarrow> rectangle" where
  "move_r d r = r\<lparr>rect_w := rect_w r + d\<rparr>"

definition move_b :: "int \<Rightarrow> rectangle \<Rightarrow> rectangle" where
  "move_b d r = r\<lparr>rect_h := rect_h r + d\<rparr>"

subsection \<open>Style, BoxInfo and the drawing backend\<close>

text \<open>
  Of a \<open>Style\<close> the box code uses three things: \<open>boxcolors(flags, bg, fg)\<close>, which
  resolves the background and foreground colour, \<open>textcolor()\<close> and
  \<open>draw_boxes_inactive()\<close>. Style.cxx is missing, so each is a field.
\<close>

record style =
  boxcolors :: "flags \<Rightarrow> color \<times> color"
  textcolor :: color
  draw_boxes_inactive :: bool

record boxinfo =
  dx :: int
  dy :: int
  dw :: int
  dh :: int
  fills_rectangle :: int

text \<open>The calls a box makes to the backend, in the order it makes them.\<close>

datatype draw_op =
    SetColor color
  | DrawLine int int int int
  | FillRect rectangle
  | StrokeRect rectangle
  | LineStyle int

text \<open>
  Two things in \<open>FrameBox::_draw\<close> have no defined result in C: reading the pattern
  beyond its terminating NUL, and writing more than 26 bytes into \<open>buf\<close>. The status
  bar's formatted setter has the same hazard with its 512-byte buffer.
\<close>

datatype fault = ReadPastTerminator | BufferOverflow | BadFormat

section \<open>UpBox.cxx\<close>

subsection \<open>FlatBox\<close>

definition FlatBox_draw :: "fltk_consts \<Rightarrow> rectangle \<Rightarrow> style \<Rightarrow> flags \<Rightarrow> draw_op list" where
  "FlatBox_draw K r st fl =
     (if fl AND INVISIBLE K \<noteq> 0 then []
      else if rect_empty r then []
      else (case boxcolors st fl of (bg, fg) \<Rightarrow> [SetColor bg, FillRect r]))"

definition FlatBox_boxinfo :: boxinfo where
  "FlatBox_boxinfo = \<lparr>dx = 0, dy = 0, dw = 0, dh = 0, fills_rectangle = 3\<rparr>"

subsection \<open>FrameBox: construction\<close>

text \<open>
  A \<open>FrameBox\<close> holds its pattern (member \<open>data_\<close>), the box whose pattern is
  drawn when \<open>VALUE\<close> is set (member \<open>down\<close>), and the insets computed by the
  constructor (member \<open>boxinfo_\<close>). The constructor stores \<open>d ? d : this\<close> in
  \<open>down\<close>; here \<open>None\<close> stands for the box itself. The name passed on to the
  \<open>Box\<close> base class plays no part in drawing or geometry and is left out. (A name
  cannot end in an underscore here, so the members \<open>x_\<close>, \<open>data_\<close>, ... are written
  \<open>rect_x\<close>, \<open>fb_data\<close>, ...) The constructor assigns every member of \<open>boxinfo_\<close>;
  the zeros in the first record below stand for members not assigned yet.
\<close>

datatype framebox = FrameBox (fb_data: string) (fb_down: "framebox option") (fb_boxinfo: boxinfo)

definition FrameBox_ctor :: "string \<Rightarrow> framebox option \<Rightarrow> framebox" where
  "FrameBox_ctor s d =
     (let i = int (strlen s div 2);
          bi = \<lparr>dx = 0, dy = 0, dw = i, dh = i, fills_rectangle = 0\<rparr>;
          i = cdiv i 2;
          bi = bi\<lparr>dx := i, dy := i\<rparr>;
          bi = bi\<lparr>fills_rectangle := 3\<rparr>
      in FrameBox s d bi)"

definition FrameBox_boxinfo :: "framebox \<Rightarrow> boxinfo" where
  "FrameBox_boxinfo fb = fb_boxinfo fb"

definition down_data :: "framebox \<Rightarrow> string" where
  "down_data fb = (case fb_down fb of None \<Rightarrow> fb_data fb | Some d \<Rightarrow> fb_data d)"

subsection \<open>FrameBox: drawing\<close>

text \<open>
  A \<open>const char*\<close> walking over a pattern: \<open>At cs\<close> points at the bytes \<open>cs\<close>, which
  the terminating NUL follows; \<open>Past\<close> points beyond the NUL. \<open>deref\<close> is \<open>*s\<close>,
  \<open>incr\<close> is \<open>s++\<close>. Reading at \<open>Past\<close> is a read outside the string.
\<close>

datatype cptr = At string | Past

fun deref :: "cptr \<Rightarrow> fault + char" where
  "deref (At []) = Inr NUL"
| "deref (At (c # cs)) = Inr c"
| "deref Past = Inl ReadPastTerminator"

fun incr :: "cptr \<Rightarrow> cptr" where
  "incr (At []) = Past"
| "incr (At (c # cs)) = At cs"
| "incr Past = Past"

fun ptr_size :: "cptr \<Rightarrow> nat" where
  "ptr_size (At cs) = Suc (length cs)"
| "ptr_size Past = 0"

text \<open>\<open>fl_to_inactive\<close>: the bytes written to \<open>to\<close> before the final NUL.\<close>

fun to_inactive_loop :: "fltk_consts \<Rightarrow> string \<Rightarrow> string" where
  "to_inactive_loop K [] = []"
| "to_inactive_loop K (c # cs) =
     (if c = NUL then []
      else char_of (of_char CHR ''M'' + cdiv (char_val K c - of_char CHR ''A'') 3)
           # to_inactive_loop K cs)"

definition fl_to_inactive :: "fltk_consts \<Rightarrow> string \<Rightarrow> string" where
  "fl_to_inactive K s =
     (case s of [] \<Rightarrow> to_inactive_loop K s
      | c # cs \<Rightarrow> if c = CHR ''2'' then c # to_inactive_loop K cs else to_inactive_loop K s)"

text \<open>The argument of \<open>setcolor\<close> for a pattern character: \<open>c + (GRAY00 - 'A')\<close>.\<close>

definition shade_color :: "fltk_consts \<Rightarrow> char \<Rightarrow> color" where
  "shade_color K c = word_of_int (char_val K c + (GRAY00 K - of_char CHR ''A''))"

definition fill_interior :: "fltk_consts \<Rightarrow> style \<Rightarrow> flags \<Rightarrow> rectangle \<Rightarrow> draw_op list" where
  "fill_interior K st fl r =
     (if fl AND INVISIBLE K = 0
      then (case boxcolors st fl of (bg, fg) \<Rightarrow> [SetColor bg, FillRect r])
      else [])"

text \<open>
  The \<open>for (;;)\<close> loop of \<open>FrameBox::_draw\<close>. \<open>frame_bottom\<close> is the loop entered at
  its head, \<open>frame_top\<close> the loop entered at the label \<open>HACK\<close>; \<open>out\<close> collects the
  backend calls made so far. Leaving the loop by \<open>break\<close> fills the interior.
\<close>

function frame_bottom :: "fltk_consts \<Rightarrow> style \<Rightarrow> flags \<Rightarrow> rectangle \<Rightarrow> cptr \<Rightarrow> draw_op list \<Rightarrow> fault + draw_op list"
  and frame_top :: "fltk_consts \<Rightarrow> style \<Rightarrow> flags \<Rightarrow> rectangle \<Rightarrow> cptr \<Rightarrow> draw_op list \<Rightarrow> fault + draw_op list"
where
  "frame_bottom K st fl r s out =
     (case deref s of Inl e \<Rightarrow> Inl e | Inr c1 \<Rightarrow>
      let s1 = incr s;
          out1 = out @ [SetColor (shade_color K c1),
                        DrawLine (rect_x r) (rect_b r - 1) (rect_r r - 1) (rect_b r - 1)];
          r1 = move_b (- 1) r
      in if rect_h r1 \<le> 0 then Inr out1 else
     (case deref s1 of Inl e \<Rightarrow> Inl e | Inr c2 \<Rightarrow>
      let s2 = incr s1;
          out2 = out1 @ [SetColor (shade_color K c2),
                         DrawLine (rect_r r1 - 1) (rect_y r1) (rect_r r1 - 1) (rect_b r1 - 1)];
          r2 = move_r (- 1) r1
      in if rect_w r2 \<le> 0 then Inr out2 else
     (case deref s2 of Inl e \<Rightarrow> Inl e | Inr c \<Rightarrow>
      if c = NUL then Inr (out2 @ fill_interior K st fl r2)
      else frame_top K st fl r2 s2 out2)))"
| "frame_top K st fl r s out =
     (case deref s of Inl e \<Rightarrow> Inl e | Inr c1 \<Rightarrow>
      let s1 = incr s;
          out1 = out @ [SetColor (shade_color K c1),
                        DrawLine (rect_x r) (rect_y r) (rect_r r - 1) (rect_y r)];
          r1 = move_y 1 r
      in if rect_h r1 \<le> 0 then Inr out1 else
     (case deref s1 of Inl e \<Rightarrow> Inl e | Inr c2 \<Rightarrow>
      let s2 = incr s1;
          out2 = out1 @ [SetColor (shade_color K c2),
                         DrawLine (rect_x r1) (rect_y r1) (rect_x r1) (rect_b r1 - 1)];
          r2 = move_x 1 r1
      in if rect_w r2 \<le> 0 then Inr out2 else
     (case deref s2 of Inl e \<Rightarrow> Inl e | Inr c \<Rightarrow>
      if c = NUL then Inr (out2 @ fill_interior K st fl r2)
      else frame_bottom K st fl r2 s2 out2)))"
  by pat_completeness auto
termination
proof -
  have step: "ptr_size (incr (incr s)) < ptr_size s" if "deref (incr s) = Inr c" for s c
    using that by (cases s rule: incr.cases; cases "incr s" rule: incr.cases) simp_all
  show ?thesis
    by (relation "measure (\<lambda>a. case a of Inl (K, st, fl, r, s, out) \<Rightarrow> ptr_size s
                                       | Inr (K, st, fl, r, s, out) \<Rightarrow> ptr_size s)")
       (simp_all add: step)
qed

declare frame_bottom.simps [simp del] frame_top.simps [simp del]

text \<open>\<open>FrameBox::_draw\<close> from the test for the leading \<open>'2'\<close> on, for the pattern \<open>s\<close>.\<close>

definition frame_spiral :: "fltk_consts \<Rightarrow> style \<Rightarrow> flags \<Rightarrow> rectangle \<Rightarrow> string \<Rightarrow> fault + draw_op list" where
  "frame_spiral K st fl r s =
     (case deref (At s) of Inl e \<Rightarrow> Inl e
      | Inr c \<Rightarrow> if c = CHR ''2'' then frame_top K st fl r (incr (At s)) []
                 else frame_bottom K st fl r (At s) [])"

text \<open>
  \<open>FrameBox::_draw\<close>. \<open>fl_to_inactive\<close> writes \<open>strlen(s) + 1\<close> bytes into the 26 bytes
  of \<open>buf\<close>.
\<close>

definition FrameBox_draw :: "fltk_consts \<Rightarrow> framebox \<Rightarrow> rectangle \<Rightarrow> style \<Rightarrow> flags \<Rightarrow> fault + draw_op list" where
  "FrameBox_draw K fb R st fl =
     (if rect_empty R then Inr []
      else let s = fb_data fb;
               s = (if fl AND VALUE K \<noteq> 0 then down_data fb else s)
           in if fl AND INACTIVE K \<noteq> 0 \<and> draw_boxes_inactive st
              then (if 26 < strlen s + 1 then Inl BufferOverflow
                    else frame_spiral K st fl R (fl_to_inactive K s))
              else frame_spiral K st fl R s)"

text \<open>The static instances.\<close>

definition downBox :: framebox where
  "downBox = FrameBox_ctor ''WWHHPPAA'' None"

definition upBox :: framebox where
  "upBox = FrameBox_ctor ''AAWWHHTT'' (Some downBox)"

definition thinDownBox :: framebox where
  "thinDownBox = FrameBox_ctor ''WWHH'' None"

definition thinUpBox :: framebox where
  "thinUpBox = FrameBox_ctor ''HHWW'' (Some thinDownBox)"

definition engravedBox :: framebox where
  "engravedBox = FrameBox_ctor ''2HHWWWWHH'' (Some downBox)"

definition embossedBox :: framebox where
  "embossedBox = FrameBox_ctor ''2WWHHHHWW'' (Some downBox)"

definition borderBox :: framebox where
  "borderBox = FrameBox_ctor ''HHHH'' (Some downBox)"

subsection \<open>The other boxes\<close>

text \<open>
  \<open>DottedFrame::_draw\<close>, in the branch compiled when neither \<open>USE_X11\<close> nor
  \<open>_WIN32\<close> is defined.
\<close>

definition DottedFrame_draw :: "fltk_consts \<Rightarrow> rectangle \<Rightarrow> style \<Rightarrow> flags \<Rightarrow> draw_op list" where
  "DottedFrame_draw K r1 st fl =
     (if fl AND FOCUSED K = 0 then []
      else let r = r1 in
      case (if 4 < rect_w r then Some (move_r (- 1) (move_x 1 r))
            else if 3 < rect_w r then Some (move_r (- 1) r)
            else None) of None \<Rightarrow> [] | Some r \<Rightarrow>
      case (if 4 < rect_h r then Some (move_b (- 1) (move_y 1 r))
            else if 3 < rect_h r then Some (move_b (- 1) r)
            else None) of None \<Rightarrow> [] | Some r \<Rightarrow>
      case boxcolors st fl of (bg, fg) \<Rightarrow>
        [SetColor fg, LineStyle (DOT K), StrokeRect r, LineStyle 0])"

definition NoBox_draw :: "rectangle \<Rightarrow> style \<Rightarrow> flags \<Rightarrow> draw_op list" where
  "NoBox_draw r st fl = []"

definition BorderFrame_draw :: "rectangle \<Rightarrow> style \<Rightarrow> flags \<Rightarrow> draw_op list" where
  "BorderFrame_draw r st fl = [SetColor (textcolor st), StrokeRect r]"

definition BorderFrame_boxinfo :: boxinfo where
  "BorderFrame_boxinfo = \<lparr>dx = 1, dy = 1, dw = 2, dh = 2, fills_rectangle = 0\<rparr>"

text \<open>
  Modelled from the spec: \<open>Box::boxinfo()\<close>, the base-class method that \<open>NoBox\<close> and
  \<open>DottedFrame\<close> inherit (fltk/Box.h and the file defining it are missing). The spec
  gives \<open>NoBox\<close> all-zero insets, not opaque.
\<close>

definition Box_boxinfo :: boxinfo where
  "Box_boxinfo = \<lparr>dx = 0, dy = 0, dw = 0, dh = 0, fills_rectangle = 0\<rparr>"

text \<open>
  A \<open>Box*\<close> points at an object of one of the classes of this file. \<open>box_draw\<close> is the
  call \<open>b->draw(r, style, flags)\<close> and \<open>box_boxinfo\<close> the call \<open>b->boxinfo()\<close>, each
  dispatched on the class; \<open>HighlightBox_draw\<close> and \<open>HighlightBox_boxinfo\<close> receive
  the member \<open>down\<close> of the \<open>HighlightBox\<close>.
\<close>

datatype box =
    Box_Dotted
  | Box_None
  | Box_Flat
  | Box_Frame framebox
  | Box_BorderFrame
  | Box_Highlight box

fun box_draw :: "fltk_consts \<Rightarrow> box \<Rightarrow> rectangle \<Rightarrow> style \<Rightarrow> flags \<Rightarrow> fault + draw_op list"
  and HighlightBox_draw :: "fltk_consts \<Rightarrow> box \<Rightarrow> rectangle \<Rightarrow> style \<Rightarrow> flags \<Rightarrow> fault + draw_op list"
where
  "box_draw K Box_Dotted r st fl = Inr (DottedFrame_draw K r st fl)"
| "box_draw K Box_None r st fl = Inr (NoBox_draw r st fl)"
| "box_draw K Box_Flat r st fl = Inr (FlatBox_draw K r st fl)"
| "box_draw K (Box_Frame fb) r st fl = FrameBox_draw K fb r st fl"
| "box_draw K Box_BorderFrame r st fl = Inr (BorderFrame_draw r st fl)"
| "box_draw K (Box_Highlight d) r st fl = HighlightBox_draw K d r st fl"
| "HighlightBox_draw K d r st fl =
     (if fl AND (HIGHLIGHT K OR SELECTED K OR VALUE K OR PUSHED K) \<noteq> 0
      then box_draw K d r st fl
      else Inr (FlatBox_draw K r st fl))"

fun box_boxinfo :: "box \<Rightarrow> boxinfo"
  and HighlightBox_boxinfo :: "box \<Rightarrow> boxinfo"
where
  "box_boxinfo Box_Dotted = Box_boxinfo"
| "box_boxinfo Box_None = Box_boxinfo"
| "box_boxinfo Box_Flat = FlatBox_boxinfo"
| "box_boxinfo (Box_Frame fb) = FrameBox_boxinfo fb"
| "box_boxinfo Box_BorderFrame = BorderFrame_boxinfo"
| "box_boxinfo (Box_Highlight d) = HighlightBox_boxinfo d"
| "HighlightBox_boxinfo d = box_boxinfo d"

definition FLAT_BOX :: box where
  "FLAT_BOX = Box_Flat"

definition THIN_DOWN_BOX :: box where
  "THIN_DOWN_BOX = Box_Frame thinDownBox"

definition THIN_UP_BOX :: box where
  "THIN_UP_BOX = Box_Frame thinUpBox"

definition highlightUpBox :: box where
  "highlightUpBox = Box_Highlight THIN_UP_BOX"

definition highlightDownBox :: box where
  "highlightDownBox = Box_Highlight THIN_DOWN_BOX"

text \<open>
  Modelled from the spec: \<open>box_dx\<close>, \<open>box_dw\<close>, \<open>box_dh\<close> and \<open>box_dy\<close> (fltk/Box.h is
  missing), the insets of a box as its \<open>boxinfo()\<close> gives them.
\<close>

definition box_dx :: "box \<Rightarrow> int" where
  "box_dx b = dx (box_boxinfo b)"

definition box_dw :: "box \<Rightarrow> int" where
  "box_dw b = dw (box_boxinfo b)"

definition box_dh :: "box \<Rightarrow> int" where
  "box_dh b = dh (box_boxinfo b)"

definition box_dy :: "box \<Rightarrow> int" where
  "box_dy b = dy (box_boxinfo b)"

section \<open>StatusBarGroup\<close>

text \<open>
  Widgets are objects that point at each other (\<open>parent()\<close>, \<open>child(i)\<close>,
  \<open>tf_[i]\<close>) and are changed in place, and \<open>resize_from_parent\<close> compares
  \<open>this\<close> with the children of its parent. So widgets live in a store, addressed by
  \<open>wid\<close>; a null pointer is \<open>None\<close>. Every address holds a widget: which addresses
  are in use is not recorded, and a destroyed widget is one that nothing points at.
\<close>

type_synonym wid = nat

datatype position = SBAR_LEFT | SBAR_CENTER | SBAR_RIGHT

text \<open>
  A widget is a \<open>Rectangle\<close> with the members below. \<open>w_box\<close> is what \<open>box()\<close>
  returns, \<open>w_redraw\<close> records a call of \<open>redraw()\<close>, \<open>w_sizes\<close> says whether a
  group holds remembered child sizes, and \<open>sb_tf\<close> and \<open>sb_b\<close> are the members
  \<open>tf_\<close> and \<open>b_\<close> of a \<open>StatusBarGroup\<close>.
\<close>

record widget = rectangle +
  w_parent :: "wid option"
  w_box :: box
  w_label :: "string option"
  w_align :: flags
  w_redraw :: bool
  w_is_group :: bool
  w_children :: "wid list"
  w_sizes :: bool
  sb_tf :: "position \<Rightarrow> wid option"
  sb_b :: "position \<Rightarrow> box"

text \<open>The store, and \<open>Group::current()\<close>.\<close>

record world =
  heap :: "wid \<Rightarrow> widget"
  current :: "wid option"

text \<open>
  Modelled from the spec: the content rectangle of a widget, in the coordinates of its
  children. \<open>(dx, dy)\<close> is the offset of the content from the top-left corner,
  \<open>(dw, dh)\<close> the total width and height the border takes.
\<close>

definition content_rect :: "widget \<Rightarrow> rectangle" where
  "content_rect p =
     \<lparr>rect_x = box_dx (w_box p), rect_y = box_dy (w_box p),
      rect_w = rect_w p - box_dw (w_box p), rect_h = rect_h p - box_dh (w_box p)\<rparr>"

text \<open>Changing the object at address \<open>a\<close>.\<close>

definition upd :: "wid \<Rightarrow> (widget \<Rightarrow> widget) \<Rightarrow> world \<Rightarrow> world" where
  "upd a f \<sigma> = \<sigma>\<lparr>heap := (heap \<sigma>)(a := f (heap \<sigma> a))\<rparr>"

definition BORDER_WIDTH :: int where
  "BORDER_WIDTH = 2"

text \<open>
  Modelled from the spec: the widget-tree operations the status bar calls, whose
  definitions (Widget.cxx, Group.cxx, InvisibleBox.cxx) are missing.
  \<^item> \<open>resize(x, y, w, h)\<close> sets the rectangle of a widget; \<open>resize(w, h)\<close> keeps its
    position.
  \<^item> \<open>init_sizes()\<close> makes a group forget the remembered sizes of its children.
  \<^item> \<open>add(w)\<close> attaches \<open>w\<close> as the last child of the group.
  \<^item> \<open>delete\<close> destroys a widget, which detaches it from its parent.
  \<^item> \<open>redraw()\<close> marks the widget for repainting.
  \<^item> \<open>new InvisibleBox(box, x, y, w, h, label)\<close> makes a widget with that box,
    rectangle and label, at the address \<open>a\<close> the allocator hands out; like every widget
    it starts as a child of \<open>Group::current()\<close>.
  \<^item> \<open>measure_label(w, h)\<close> replaces \<open>w\<close> and \<open>h\<close> by the extent of the widget's
    label; text measurement belongs to the backend and is a parameter.
\<close>

definition Widget_resize :: "wid \<Rightarrow> int \<Rightarrow> int \<Rightarrow> int \<Rightarrow> int \<Rightarrow> world \<Rightarrow> world" where
  "Widget_resize a X Y W H \<sigma> = upd a (\<lambda>w. w\<lparr>rect_x := X, rect_y := Y, rect_w := W, rect_h := H\<rparr>) \<sigma>"

definition Widget_resize_wh :: "wid \<Rightarrow> int \<Rightarrow> int \<Rightarrow> world \<Rightarrow> world" where
  "Widget_resize_wh a W H \<sigma> = Widget_resize a (rect_x (heap \<sigma> a)) (rect_y (heap \<sigma> a)) W H \<sigma>"

definition Group_init_sizes :: "wid \<Rightarrow> world \<Rightarrow> world" where
  "Group_init_sizes g \<sigma> = upd g (\<lambda>w. w\<lparr>w_sizes := False\<rparr>) \<sigma>"

definition Group_add :: "wid \<Rightarrow> wid \<Rightarrow> world \<Rightarrow> world" where
  "Group_add g a \<sigma> =
     (let \<sigma> = upd g (\<lambda>w. w\<lparr>w_children := w_children w @ [a]\<rparr>) \<sigma>;
          \<sigma> = upd a (\<lambda>w. w\<lparr>w_parent := Some g\<rparr>) \<sigma>
      in \<sigma>)"

definition Widget_delete :: "wid \<Rightarrow> world \<Rightarrow> world" where
  "Widget_delete a \<sigma> =
     (case w_parent (heap \<sigma> a) of
        None \<Rightarrow> \<sigma>
      | Some g \<Rightarrow> upd g (\<lambda>w. w\<lparr>w_children := remove1 a (w_children w)\<rparr>) \<sigma>)"

definition Widget_redraw :: "wid \<Rightarrow> world \<Rightarrow> world" where
  "Widget_redraw a \<sigma> = upd a (\<lambda>w. w\<lparr>w_redraw := True\<rparr>) \<sigma>"

definition InvisibleBox_new :: "wid \<Rightarrow> box \<Rightarrow> int \<Rightarrow> int \<Rightarrow> int \<Rightarrow> int \<Rightarrow> string option \<Rightarrow> world \<Rightarrow> world" where
  "InvisibleBox_new a b X Y W H l \<sigma> =
     (let \<sigma> = \<sigma>\<lparr>heap := (heap \<sigma>)(a :=
                 \<lparr>rect_x = X, rect_y = Y, rect_w = W, rect_h = H,
                  w_parent = None, w_box = b, w_label = l, w_align = 0, w_redraw = False,
                  w_is_group = False, w_children = [], w_sizes = False,
                  sb_tf = (\<lambda>_. None), sb_b = (\<lambda>_. Box_None)\<rparr>)\<rparr>
      in case current \<sigma> of None \<Rightarrow> \<sigma> | Some g \<Rightarrow> Group_add g a \<sigma>)"

type_synonym measure_label = "widget \<Rightarrow> int \<times> int \<Rightarrow> int \<times> int"

text \<open>
  \<open>StatusBarGroup::update_box\<close>. The final \<open>b->damage()\<close> takes no argument: it reads
  the damage bits and changes nothing.
\<close>

definition update_box :: "measure_label \<Rightarrow> wid \<Rightarrow> wid option \<Rightarrow> position \<Rightarrow> world \<Rightarrow> world" where
  "update_box M this b pos \<sigma> =
     (case b of None \<Rightarrow> \<sigma> | Some b \<Rightarrow>
      case M (heap \<sigma> b) (0, 0) of (X, Y) \<Rightarrow>
      let X = X + (box_dw (sb_b (heap \<sigma> this) pos) + 1) * 2;
          \<sigma> = Widget_resize_wh b X
                 (rect_h (heap \<sigma> this) - (box_dh (w_box (heap \<sigma> this)) + BORDER_WIDTH) * 2) \<sigma>;
          \<sigma> = (case pos of
                 SBAR_LEFT \<Rightarrow>
                   upd b (\<lambda>w. w\<lparr>rect_x := box_dx (w_box (heap \<sigma> this))\<rparr>) \<sigma>
               | SBAR_CENTER \<Rightarrow>
                   upd b (\<lambda>w. w\<lparr>rect_x := cdiv (rect_r (heap \<sigma> this) - rect_w (heap \<sigma> b)) 2\<rparr>) \<sigma>
               | SBAR_RIGHT \<Rightarrow>
                   upd b (\<lambda>w. w\<lparr>rect_x := rect_r (heap \<sigma> this) - rect_w (heap \<sigma> b)
                                          - box_dw (w_box (heap \<sigma> this)) - BORDER_WIDTH\<rparr>) \<sigma>)
      in \<sigma>)"

text \<open>
  The \<open>x\<close> that \<open>update_box\<close> gives the label box \<open>b\<close> of the group \<open>g\<close>, by
  position.
\<close>

definition slot_x :: "position \<Rightarrow> widget \<Rightarrow> widget \<Rightarrow> int" where
  "slot_x pos g b =
     (case pos of
        SBAR_LEFT \<Rightarrow> box_dx (w_box g)
      | SBAR_CENTER \<Rightarrow> cdiv (rect_r g - rect_w b) 2
      | SBAR_RIGHT \<Rightarrow> rect_r g - rect_w b - box_dw (w_box g) - BORDER_WIDTH)"

text \<open>
  The loop of \<open>resize_from_parent\<close> over the children of the parent. Nothing in its
  body changes the parent's list of children, so it runs over the list as it is on entry.
\<close>

fun shrink_siblings :: "wid \<Rightarrow> wid list \<Rightarrow> world \<Rightarrow> world" where
  "shrink_siblings this [] \<sigma> = \<sigma>"
| "shrink_siblings this (w # ws) \<sigma> =
     shrink_siblings this ws
       (if this \<noteq> w then
          let delta = rect_b (heap \<sigma> w) - rect_y (heap \<sigma> this) in
          if 0 < delta then
            let \<sigma> = Widget_resize w (rect_x (heap \<sigma> w)) (rect_y (heap \<sigma> w)) (rect_w (heap \<sigma> w))
                       (if 0 < rect_h (heap \<sigma> w) - delta then rect_h (heap \<sigma> w) - delta else 0) \<sigma>;
                \<sigma> = (if w_is_group (heap \<sigma> w) then Group_init_sizes w \<sigma> else \<sigma>)
            in \<sigma>
          else \<sigma>
        else \<sigma>)"

text \<open>
  What the body of that loop makes of a sibling \<open>w\<close> when the top edge of the status
  bar is at \<open>t\<close>.
\<close>

definition sibling_step :: "int \<Rightarrow> widget \<Rightarrow> widget" where
  "sibling_step t w =
     (let delta = rect_b w - t in
      if 0 < delta
      then w\<lparr>rect_h := (if 0 < rect_h w - delta then rect_h w - delta else 0),
             w_sizes := (if w_is_group w then False else w_sizes w)\<rparr>
      else w)"

text \<open>The final loop \<open>for (i=0; i<3; i++) update_box(tf_[i], (Position) i)\<close>.\<close>

fun update_boxes :: "measure_label \<Rightarrow> wid \<Rightarrow> position list \<Rightarrow> world \<Rightarrow> world" where
  "update_boxes M this [] \<sigma> = \<sigma>"
| "update_boxes M this (i # is) \<sigma> =
     update_boxes M this is (update_box M this (sb_tf (heap \<sigma> this) i) i \<sigma>)"

definition resize_from_parent :: "measure_label \<Rightarrow> wid \<Rightarrow> world \<Rightarrow> world" where
  "resize_from_parent M this \<sigma> =
     (case w_parent (heap \<sigma> this) of None \<Rightarrow> \<sigma> | Some p \<Rightarrow>
      let \<sigma> = upd this (\<lambda>w. w\<lparr>rect_x := box_dx (w_box (heap \<sigma> p))\<rparr>) \<sigma>;
          \<sigma> = upd this (\<lambda>w. w\<lparr>rect_w := rect_w (heap \<sigma> p) - box_dw (w_box (heap \<sigma> p))\<rparr>) \<sigma>;
          \<sigma> = upd this (\<lambda>w. w\<lparr>rect_y := rect_h (heap \<sigma> p) - box_dh (w_box (heap \<sigma> p))
                                          - rect_h (heap \<sigma> this)\<rparr>) \<sigma>;
          \<sigma> = shrink_siblings this (w_children (heap \<sigma> p)) \<sigma>;
          \<sigma> = update_boxes M this [SBAR_LEFT, SBAR_CENTER, SBAR_RIGHT] \<sigma>
      in \<sigma>)"

text \<open>
  \<open>StatusBarGroup::set(const char* t, Position pos)\<close>. \<open>c_empty\<close> is the test
  \<open>!t || !*t\<close>; \<open>copy_label\<close> stores the C string \<open>t\<close> points at.
\<close>

definition c_empty :: "string option \<Rightarrow> bool" where
  "c_empty t = (case t of None \<Rightarrow> True | Some s \<Rightarrow> (case deref (At s) of Inr c \<Rightarrow> c = NUL | Inl e \<Rightarrow> True))"

definition cstring :: "string \<Rightarrow> string" where
  "cstring s = takeWhile (\<lambda>c. c \<noteq> NUL) s"

definition set_text :: "fltk_consts \<Rightarrow> measure_label \<Rightarrow> wid \<Rightarrow> wid \<Rightarrow> string option \<Rightarrow> position \<Rightarrow> world \<Rightarrow> world" where
  "set_text K M this a t pos \<sigma> =
     (case (if c_empty t then None else t) of
        None \<Rightarrow>
          (case sb_tf (heap \<sigma> this) pos of
             None \<Rightarrow> \<sigma>
           | Some b \<Rightarrow>
               let \<sigma> = Widget_delete b \<sigma>;
                   \<sigma> = upd this (\<lambda>w. w\<lparr>sb_tf := (sb_tf w)(pos := None)\<rparr>) \<sigma>
               in \<sigma>)
      | Some txt \<Rightarrow>
          let \<sigma> =
            (case sb_tf (heap \<sigma> this) pos of
               Some b \<Rightarrow> \<sigma>
             | None \<Rightarrow>
                 let \<sigma> = \<sigma>\<lparr>current := None\<rparr>;
                     \<sigma> = InvisibleBox_new a (sb_b (heap \<sigma> this) pos) (box_dx (w_box (heap \<sigma> this)))
                            (box_dh (w_box (heap \<sigma> this)) + BORDER_WIDTH) 10 10 None \<sigma>;
                     \<sigma> = upd this (\<lambda>w. w\<lparr>sb_tf := (sb_tf w)(pos := Some a)\<rparr>) \<sigma>;
                     \<sigma> = upd a (\<lambda>w. w\<lparr>w_align := ALIGN_LEFT K OR ALIGN_INSIDE K\<rparr>) \<sigma>;
                     \<sigma> = Group_add this a \<sigma>
                 in \<sigma>)
          in (case sb_tf (heap \<sigma> this) pos of
                None \<Rightarrow> \<sigma>
              | Some b \<Rightarrow>
                  let \<sigma> = upd b (\<lambda>w. w\<lparr>w_label := Some (cstring txt)\<rparr>) \<sigma>;
                      \<sigma> = update_box M this (sb_tf (heap \<sigma> this) pos) pos \<sigma>;
                      \<sigma> = Widget_redraw this \<sigma>
                  in \<sigma>))"

text \<open>
  \<open>StatusBarGroup::set(Position pos, const char* format, ...)\<close>. \<open>vsprintf\<close> is the
  C library's; modelled are ordinary characters, \<open>%d\<close> with an \<open>int\<close> argument and
  \<open>%%\<close>, and every other directive is \<open>BadFormat\<close>. The result and its NUL have to
  fit the 512 bytes of \<open>buffer\<close>.
\<close>

fun digits :: "nat \<Rightarrow> string" where
  "digits n = (if n < 10 then [char_of (of_char CHR ''0'' + n)]
               else digits (n div 10) @ [char_of (of_char CHR ''0'' + n mod 10)])"

definition decimal :: "int \<Rightarrow> string" where
  "decimal i = (if i < 0 then CHR ''-'' # digits (nat (- i)) else digits (nat i))"

fun vsprintf :: "string \<Rightarrow> int list \<Rightarrow> fault + string" where
  "vsprintf [] args = Inr []"
| "vsprintf (c # fmt) args =
     (if c = NUL then Inr []
      else if c \<noteq> CHR ''%'' then map_sum id ((#) c) (vsprintf fmt args)
      else (case fmt of
              d # rest \<Rightarrow>
                if d = CHR ''d'' then
                  (case args of
                     [] \<Rightarrow> Inl BadFormat
                   | v # vs \<Rightarrow> map_sum id ((@) (decimal v)) (vsprintf rest vs))
                else if d = CHR ''%'' then map_sum id ((#) c) (vsprintf rest args)
                else Inl BadFormat
            | [] \<Rightarrow> Inl BadFormat))"

definition set_fmt :: "fltk_consts \<Rightarrow> measure_label \<Rightarrow> wid \<Rightarrow> wid \<Rightarrow> position \<Rightarrow> string \<Rightarrow> int list \<Rightarrow> world \<Rightarrow> fault + world" where
  "set_fmt K M this a pos format args \<sigma> =
     (case vsprintf format args of
        Inl e \<Rightarrow> Inl e
      | Inr buffer \<Rightarrow>
          if 512 < length buffer + 1 then Inl BufferOverflow
          else Inr (set_text K M this a (Some buffer) pos \<sigma>))"

section \<open>The spec's description of the bezel interpreter\<close>

text \<open>
  The spec describes \<open>FrameBox\<close> drawing as one edge per pattern character, in the cyclic
  order bottom, right, top, left, the working rectangle shrinking by one pixel on the
  side of the edge just drawn, and drawing stopping as soon as the rectangle has no
  width or no height left. The definitions below follow these words and are compared
  with \<open>FrameBox_draw\<close> in the properties.
\<close>

datatype edge = Bottom | Right | Top | Left

fun spec_next_edge :: "edge \<Rightarrow> edge" where
  "spec_next_edge Bottom = Right"
| "spec_next_edge Right = Top"
| "spec_next_edge Top = Left"
| "spec_next_edge Left = Bottom"

fun spec_edge_line :: "edge \<Rightarrow> rectangle \<Rightarrow> draw_op" where
  "spec_edge_line Bottom r = DrawLine (rect_x r) (rect_b r - 1) (rect_r r - 1) (rect_b r - 1)"
| "spec_edge_line Right r = DrawLine (rect_r r - 1) (rect_y r) (rect_r r - 1) (rect_b r - 1)"
| "spec_edge_line Top r = DrawLine (rect_x r) (rect_y r) (rect_r r - 1) (rect_y r)"
| "spec_edge_line Left r = DrawLine (rect_x r) (rect_y r) (rect_x r) (rect_b r - 1)"

fun spec_shrink :: "edge \<Rightarrow> rectangle \<Rightarrow> rectangle" where
  "spec_shrink Bottom r = r\<lparr>rect_h := rect_h r - 1\<rparr>"
| "spec_shrink Right r = r\<lparr>rect_w := rect_w r - 1\<rparr>"
| "spec_shrink Top r = r\<lparr>rect_y := rect_y r + 1, rect_h := rect_h r - 1\<rparr>"
| "spec_shrink Left r = r\<lparr>rect_x := rect_x r + 1, rect_w := rect_w r - 1\<rparr>"

text \<open>
  The edges drawn for the characters \<open>cs\<close>, starting with edge \<open>e\<close> on rectangle \<open>r\<close>,
  and the interior left over when the characters are exhausted (\<open>None\<close> when drawing
  stopped early).
\<close>

fun spec_spiral :: "fltk_consts \<Rightarrow> edge \<Rightarrow> rectangle \<Rightarrow> string \<Rightarrow> draw_op list \<times> rectangle option" where
  "spec_spiral K e r [] = ([], Some r)"
| "spec_spiral K e r (c # cs) =
     (let ops = [SetColor (shade_color K c), spec_edge_line e r];
          r' = spec_shrink e r
      in if rect_w r' \<le> 0 \<or> rect_h r' \<le> 0 then (ops, None)
         else (case spec_spiral K (spec_next_edge e) r' cs of (ops', rest) \<Rightarrow> (ops @ ops', rest)))"

definition spec_frame :: "fltk_consts \<Rightarrow> style \<Rightarrow> flags \<Rightarrow> edge \<Rightarrow> rectangle \<Rightarrow> string \<Rightarrow> draw_op list" where
  "spec_frame K st fl e r body =
     (case spec_spiral K e r body of
        (ops, None) \<Rightarrow> ops
      | (ops, Some r') \<Rightarrow>
          if fl AND INVISIBLE K = 0 then ops @ [SetColor (fst (boxcolors st fl)), FillRect r']
          else ops)"

text \<open>A leading \<open>'2'\<close> is the mode switch: it is not drawn, and drawing starts at the top.\<close>

definition spec_FrameBox_draw :: "fltk_consts \<Rightarrow> style \<Rightarrow> flags \<Rightarrow> rectangle \<Rightarrow> string \<Rightarrow> draw_op list" where
  "spec_FrameBox_draw K st fl R p =
     (case p of
        [] \<Rightarrow> spec_frame K st fl Bottom R p
      | c # body \<Rightarrow> if c = CHR ''2'' then spec_frame K st fl Top R body
                    else spec_frame K st fl Bottom R p)"

text \<open>
  The pattern selected by the \<open>VALUE\<close> flag, and the pattern that is interpreted once
  inactive dimming has been applied to it.
\<close>

definition selected_pattern :: "fltk_consts \<Rightarrow> framebox \<Rightarrow> flags \<Rightarrow> string" where
  "selected_pattern K fb fl = (if fl AND VALUE K \<noteq> 0 then down_data fb else fb_data fb)"

definition dimmed :: "fltk_consts \<Rightarrow> style \<Rightarrow> flags \<Rightarrow> bool" where
  "dimmed K st fl = (fl AND INACTIVE K \<noteq> 0 \<and> draw_boxes_inactive st)"

definition interpreted_pattern :: "fltk_consts \<Rightarrow> style \<Rightarrow> framebox \<Rightarrow> flags \<Rightarrow> string" where
  "interpreted_pattern K st fb fl =
     (if dimmed K st fl then fl_to_inactive K (selected_pattern K fb fl)
      else selected_pattern K fb fl)"

text \<open>The body of a pattern: what follows the mode character, if there is one.\<close>

definition pattern_body :: "string \<Rightarrow> string" where
  "pattern_body p = (case p of [] \<Rightarrow> [] | c # cs \<Rightarrow> if c = CHR ''2'' then cs else p)"

text \<open>The spec's inactive remap: \<open>'M' + (c - 'A')/3\<close> for each shade character.\<close>

definition spec_shade :: "fltk_consts \<Rightarrow> char \<Rightarrow> char" where
  "spec_shade K c = char_of (of_char CHR ''M'' + cdiv (char_val K c - of_char CHR ''A'') 3)"

definition spec_inactive :: "fltk_consts \<Rightarrow> string \<Rightarrow> string" where
  "spec_inactive K s =
     (case s of [] \<Rightarrow> []
      | c # cs \<Rightarrow> if c = CHR ''2'' then c # map (spec_shade K) cs else map (spec_shade K) s)"

section \<open>Concrete parameters\<close>

text \<open>
  An assignment of the parameters for evaluating the model on concrete inputs: one bit
  per flag, \<open>GRAY00 = 32\<close>, signed \<open>char\<close>, and a style that resolves every box to
  the colours 49 and 56.
\<close>

definition sample_consts :: fltk_consts where
  "sample_consts =
     \<lparr>FOCUSED = 0x200000, PUSHED = 0x400000, VALUE = 0x400, HIGHLIGHT = 0x2000,
      SELECTED = 0x800, INACTIVE = 0x100, INVISIBLE = 0x1000, ALIGN_LEFT = 0x4,
      ALIGN_INSIDE = 0x20, GRAY00 = 32, DOT = 2, char_is_signed = True\<rparr>"

definition sample_style :: style where
  "sample_style = \<lparr>boxcolors = (\<lambda>fl. (49, 56)), textcolor = 56, draw_boxes_inactive = True\<rparr>"

definition sample_measure :: measure_label where
  "sample_measure w xy = (case w_label w of None \<Rightarrow> (0, 0) | Some l \<Rightarrow> (6 * int (length l), 12))"

text \<open>
  A window of 300 by 200 pixels at address 10 with three children: two widgets at
  addresses 11 and 12 and a status bar of height 24 at address 13. The box of the window
  is a parameter. In \<open>sample_occupied\<close> the right slot of the status bar holds a label.
\<close>

definition blank :: widget where
  "blank = \<lparr>rect_x = 0, rect_y = 0, rect_w = 0, rect_h = 0,
            w_parent = None, w_box = Box_None, w_label = None, w_align = 0, w_redraw = False,
            w_is_group = False, w_children = [], w_sizes = False,
            sb_tf = (\<lambda>_. None), sb_b = (\<lambda>_. FLAT_BOX)\<rparr>"

definition sample_world :: "box \<Rightarrow> world" where
  "sample_world pb =
     \<lparr>heap = (\<lambda>_. blank)
        (10 := blank\<lparr>rect_w := 300, rect_h := 200, w_box := pb, w_is_group := True,
                     w_children := [11, 12, 13]\<rparr>,
         11 := blank\<lparr>rect_y := 150, rect_w := 100, rect_h := 40, w_parent := Some 10\<rparr>,
         12 := blank\<lparr>rect_y := 100, rect_w := 100, rect_h := 50, w_parent := Some 10\<rparr>,
         13 := blank\<lparr>rect_h := 24, w_parent := Some 10, w_box := THIN_DOWN_BOX,
                     w_is_group := True\<rparr>),
      current = None\<rparr>"

definition sample_occupied :: world where
  "sample_occupied =
     set_text sample_consts sample_measure 13 14 (Some ''Old'') SBAR_RIGHT (sample_world FLAT_BOX)"

section \<open>Properties of the boxes\<close>

lemma cdiv_nonneg: "0 \<le> a \<Longrightarrow> 0 < b \<Longrightarrow> cdiv a b = a div b"
  by (simp add: cdiv_def)

lemmas rect_ops = move_b_def move_r_def move_x_def move_y_def rect_r_def rect_b_def

lemmas char_eval = NUL_def char_val_def cdiv_def char_of_eq_iff spec_shade_def

lemma sample_flags:
  "INACTIVE sample_consts = 0x100" "VALUE sample_consts = 0x400"
  "INVISIBLE sample_consts = 0x1000" "draw_boxes_inactive sample_style"
  "boxcolors sample_style fl = (49, 56)" "GRAY00 sample_consts = 32"
  "char_is_signed sample_consts"
  by (simp_all add: sample_consts_def sample_style_def)

lemma static_patterns:
  "fb_data upBox = ''AAWWHHTT''" "down_data upBox = ''WWHHPPAA''"
  "fb_data engravedBox = ''2HHWWWWHH''" "down_data engravedBox = ''WWHHPPAA''"
  by (simp_all add: upBox_def downBox_def engravedBox_def FrameBox_ctor_def down_data_def Let_def)

subsection \<open>FlatBox\<close>

text \<open>
  C4. For every rectangle with positive width and height and every flags value without
  \<open>INVISIBLE\<close>, \<open>FlatBox::_draw\<close> emits exactly one fill of the rectangle, in the
  background colour the style resolves for the flags; with \<open>INVISIBLE\<close> set, or with an
  empty rectangle, it emits nothing; \<open>FlatBox::boxinfo()\<close> has all insets zero and
  \<open>fills_rectangle = 3\<close>.
\<close>

theorem FlatBox_draw_fill:
  "(0 < rect_w r \<and> 0 < rect_h r \<and> fl AND INVISIBLE K = 0 \<longrightarrow>
      FlatBox_draw K r st fl = [SetColor (fst (boxcolors st fl)), FillRect r])
   \<and> (fl AND INVISIBLE K \<noteq> 0 \<or> rect_empty r \<longrightarrow> FlatBox_draw K r st fl = [])
   \<and> FlatBox_boxinfo = \<lparr>dx = 0, dy = 0, dw = 0, dh = 0, fills_rectangle = 3\<rparr>"
  by (auto simp: FlatBox_draw_def FlatBox_boxinfo_def rect_empty_def split: prod.splits)

theorem FlatBox_draw_fill_witness:
  "FlatBox_draw sample_consts \<lparr>rect_x = 0, rect_y = 0, rect_w = 10, rect_h = 5\<rparr> sample_style 0
     = [SetColor 49, FillRect \<lparr>rect_x = 0, rect_y = 0, rect_w = 10, rect_h = 5\<rparr>]
   \<and> FlatBox_draw sample_consts \<lparr>rect_x = 0, rect_y = 0, rect_w = 10, rect_h = 5\<rparr> sample_style
       0x1000 = []
   \<and> FlatBox_draw sample_consts \<lparr>rect_x = 0, rect_y = 0, rect_w = 0, rect_h = 5\<rparr> sample_style 0
       = []"
  using FlatBox_draw_fill [of "\<lparr>rect_x = 0, rect_y = 0, rect_w = 10, rect_h = 5\<rparr>" 0
          sample_consts sample_style]
        FlatBox_draw_fill [of "\<lparr>rect_x = 0, rect_y = 0, rect_w = 10, rect_h = 5\<rparr>" "0x1000"
          sample_consts sample_style]
        FlatBox_draw_fill [of "\<lparr>rect_x = 0, rect_y = 0, rect_w = 0, rect_h = 5\<rparr>" 0
          sample_consts sample_style]
  by (simp add: sample_flags rect_empty_def)

subsection \<open>FrameBox: the insets\<close>

text \<open>
  C7. For every \<open>FrameBox\<close> constructed with pattern \<open>P\<close>, \<open>boxinfo()\<close> returns
  \<open>dw = dh = strlen(P)/2\<close> and \<open>dx = dy = (strlen(P)/2)/2\<close>, both divisions truncating.
  The constructor computes the values and stores them in the box, \<open>boxinfo()\<close> only
  reads them, and no function of this file changes a box.
\<close>

theorem FrameBox_boxinfo_ctor:
  "FrameBox_boxinfo (FrameBox_ctor P d) =
     \<lparr>dx = int ((strlen P div 2) div 2), dy = int ((strlen P div 2) div 2),
      dw = int (strlen P div 2), dh = int (strlen P div 2), fills_rectangle = 3\<rparr>"
  by (simp add: FrameBox_boxinfo_def FrameBox_ctor_def Let_def cdiv_nonneg zdiv_int)

subsection \<open>FrameBox: the bezel interpreter against the spec's description\<close>

lemma fill_interior_spec:
  "fill_interior K st fl r =
     (if fl AND INVISIBLE K = 0 then [SetColor (fst (boxcolors st fl)), FillRect r] else [])"
  by (simp add: fill_interior_def split: prod.splits)

text \<open>
  On a rectangle with positive width and height and a pattern of \<open>2 * (n + 1)\<close>
  characters, the loop, entered at its head or at \<open>HACK\<close>, draws what the spec describes.
  Each test of the loop looks at the one dimension the edge just drawn has shortened;
  the other one is still positive.
\<close>

lemma frame_loops_spec:
  "length cs = 2 * Suc n \<Longrightarrow> NUL \<notin> set cs \<Longrightarrow> 0 < rect_w r \<Longrightarrow> 0 < rect_h r \<Longrightarrow>
     frame_bottom K st fl r (At cs) out = Inr (out @ spec_frame K st fl Bottom r cs)
   \<and> frame_top K st fl r (At cs) out = Inr (out @ spec_frame K st fl Top r cs)"
proof (induction n arbitrary: cs r out)
  case 0
  then obtain c1 c2 where cs: "cs = [c1, c2]"
    by (cases cs; cases "tl cs") auto
  have "frame_bottom K st fl r (At [c1, c2]) out = Inr (out @ spec_frame K st fl Bottom r [c1, c2])"
    by (subst frame_bottom.simps)
       (use 0(3,4) in \<open>simp add: Let_def spec_frame_def fill_interior_spec rect_ops\<close>)
  moreover
  have "frame_top K st fl r (At [c1, c2]) out = Inr (out @ spec_frame K st fl Top r [c1, c2])"
    by (subst frame_top.simps)
       (use 0(3,4) in \<open>simp add: Let_def spec_frame_def fill_interior_spec rect_ops\<close>)
  ultimately show ?case
    unfolding cs by simp
next
  case (Suc n)
  then obtain c1 c2 cs' where cs: "cs = c1 # c2 # cs'" and len: "length cs' = 2 * Suc n"
    and nul: "NUL \<notin> set cs'"
    by (cases cs; cases "tl cs") auto
  from len obtain c3 cs'' where cs': "cs' = c3 # cs''"
    by (cases cs') auto
  with nul have c3: "c3 \<noteq> NUL"
    by auto
  note IH = Suc.IH [OF len nul]
  have "frame_bottom K st fl r (At (c1 # c2 # cs')) out
          = Inr (out @ spec_frame K st fl Bottom r (c1 # c2 # cs'))"
    by (subst frame_bottom.simps)
       (use Suc.prems(3,4) c3 IH [of "move_r (- 1) (move_b (- 1) r)"] in
         \<open>auto simp add: Let_def cs' spec_frame_def rect_ops split: prod.splits option.splits\<close>)
  moreover
  have "frame_top K st fl r (At (c1 # c2 # cs')) out
          = Inr (out @ spec_frame K st fl Top r (c1 # c2 # cs'))"
    by (subst frame_top.simps)
       (use Suc.prems(3,4) c3 IH [of "move_x 1 (move_y 1 r)"] in
         \<open>auto simp add: Let_def cs' spec_frame_def rect_ops split: prod.splits option.splits\<close>)
  ultimately show ?case
    unfolding cs by simp
qed

lemma frame_spiral_spec:
  assumes "\<not> rect_empty R" and "NUL \<notin> set p" and "pattern_body p \<noteq> []"
    and "even (length (pattern_body p))"
  shows "frame_spiral K st fl R p = Inr (spec_FrameBox_draw K st fl R p)"
proof -
  from assms(4) obtain k where k: "length (pattern_body p) = 2 * k"
    by (auto elim: evenE)
  with assms(3) have "k \<noteq> 0"
    by (cases k) auto
  with k obtain n where n: "length (pattern_body p) = 2 * Suc n"
    by (cases k) auto
  have nul: "NUL \<notin> set (pattern_body p)"
    using assms(2) by (auto simp: pattern_body_def split: list.splits if_splits)
  have R: "0 < rect_w R" "0 < rect_h R"
    using assms(1) by (auto simp: rect_empty_def)
  note loops = frame_loops_spec [OF n nul R, of K st fl "[]"]
  show ?thesis
  proof (cases p)
    case Nil
    with assms(3) show ?thesis
      by (simp add: pattern_body_def)
  next
    case (Cons c cs)
    then show ?thesis
      using loops
      by (auto simp: frame_spiral_def spec_FrameBox_draw_def pattern_body_def)
  qed
qed

text \<open>
  C2, amended. For every non-empty rectangle, style and flags: when the pattern that is
  interpreted (the pattern of the down box if \<open>VALUE\<close> is set, the box's own otherwise,
  dimmed if inactive dimming applies) has, after an optional leading \<open>'2'\<close>, an even
  and positive number of characters, and the selected pattern has at most 25 characters
  if it is dimmed, then \<open>FrameBox::_draw\<close> draws one edge per pattern character in the
  cyclic order bottom, right, top, left (starting at the top after a leading \<open>'2'\<close>,
  which is not drawn), shrinks the working rectangle by one pixel on the side of each
  edge drawn, returns as soon as the width or height is no longer positive, and once
  the pattern is exhausted fills the interior with the resolved background colour
  exactly if \<open>INVISIBLE\<close> is not set.
\<close>

theorem FrameBox_draw_spiral:
  assumes "\<not> rect_empty R"
    and "NUL \<notin> set (interpreted_pattern K st fb fl)"
    and "pattern_body (interpreted_pattern K st fb fl) \<noteq> []"
    and "even (length (pattern_body (interpreted_pattern K st fb fl)))"
    and "dimmed K st fl \<longrightarrow> strlen (selected_pattern K fb fl) \<le> 25"
  shows "FrameBox_draw K fb R st fl
           = Inr (spec_FrameBox_draw K st fl R (interpreted_pattern K st fb fl))"
proof -
  have "FrameBox_draw K fb R st fl = frame_spiral K st fl R (interpreted_pattern K st fb fl)"
    using assms(1,5)
    by (auto simp add: FrameBox_draw_def interpreted_pattern_def selected_pattern_def dimmed_def
        Let_def)
  then show ?thesis
    using frame_spiral_spec [OF assms(1-4)] by simp
qed

text \<open>
  The engraved box, inactive and invisible, on a rectangle ten pixels wide and three
  high: the pattern \<open>2HHWWWWHH\<close> is dimmed to \<open>2OOTTTTOO\<close>, drawing starts at the
  top, and the fifth edge uses up the height.
\<close>

theorem FrameBox_draw_spiral_witness:
  "FrameBox_draw sample_consts engravedBox \<lparr>rect_x = 0, rect_y = 0, rect_w = 10, rect_h = 3\<rparr>
      sample_style 0x1100
     = Inr [SetColor 46, DrawLine 0 0 9 0, SetColor 46, DrawLine 0 1 0 2,
            SetColor 51, DrawLine 1 2 9 2, SetColor 51, DrawLine 9 1 9 1,
            SetColor 51, DrawLine 1 1 8 1]"
proof -
  have sel: "selected_pattern sample_consts engravedBox 0x1100 = ''2HHWWWWHH''"
    by (simp add: selected_pattern_def static_patterns sample_flags)
  have dim: "dimmed sample_consts sample_style 0x1100"
    by (simp add: dimmed_def sample_flags)
  have p: "interpreted_pattern sample_consts sample_style engravedBox 0x1100 = ''2OOTTTTOO''"
    by (simp add: interpreted_pattern_def dim sel fl_to_inactive_def char_eval sample_flags)
  have "spec_FrameBox_draw sample_consts sample_style 0x1100
          \<lparr>rect_x = 0, rect_y = 0, rect_w = 10, rect_h = 3\<rparr> ''2OOTTTTOO''
        = [SetColor 46, DrawLine 0 0 9 0, SetColor 46, DrawLine 0 1 0 2,
            SetColor 51, DrawLine 1 2 9 2, SetColor 51, DrawLine 9 1 9 1,
            SetColor 51, DrawLine 1 1 8 1]"
    by (simp add: spec_FrameBox_draw_def spec_frame_def shade_color_def char_val_def rect_ops
        sample_flags)
  then show ?thesis
    using FrameBox_draw_spiral [of "\<lparr>rect_x = 0, rect_y = 0, rect_w = 10, rect_h = 3\<rparr>"
          sample_consts sample_style engravedBox "0x1100"]
    by (simp add: p sel rect_empty_def pattern_body_def NUL_def strlen_def)
qed

text \<open>
  The claim as stated, for every pattern string, fails on a pattern of odd length. With
  the pattern \<open>A\<close> on a rectangle one pixel wide and five high the loop draws the bottom
  edge for \<open>'A'\<close>, then reads the terminating NUL as a second pattern character and
  draws the right edge with it, and returns because the width is used up: two edges for
  one character and no fill, where the spec's description gives one edge and the fill.
\<close>

lemmas frame_eval = FrameBox_draw_def FrameBox_ctor_def frame_spiral_def frame_bottom.simps
  frame_top.simps Let_def rect_ops rect_empty_def sample_consts_def sample_style_def
  shade_color_def char_val_def NUL_def spec_FrameBox_draw_def spec_frame_def fill_interior_def
  down_data_def strlen_def

theorem FrameBox_draw_odd_pattern_counterexample:
  "FrameBox_draw sample_consts (FrameBox_ctor ''A'' None)
      \<lparr>rect_x = 0, rect_y = 0, rect_w = 1, rect_h = 5\<rparr> sample_style 0
     = Inr [SetColor 32, DrawLine 0 4 0 4, SetColor (- 33), DrawLine 0 0 0 3]
   \<and> spec_FrameBox_draw sample_consts sample_style 0
        \<lparr>rect_x = 0, rect_y = 0, rect_w = 1, rect_h = 5\<rparr> ''A''
     = [SetColor 32, DrawLine 0 4 0 4, SetColor 49,
        FillRect \<lparr>rect_x = 0, rect_y = 0, rect_w = 1, rect_h = 4\<rparr>]"
  by (simp add: frame_eval)

subsection \<open>FrameBox: inactive dimming\<close>

lemma to_inactive_loop_map:
  "NUL \<notin> set s \<Longrightarrow> to_inactive_loop K s = map (spec_shade K) s"
  by (induction s) (auto simp: spec_shade_def)

lemma fl_to_inactive_spec:
  "NUL \<notin> set s \<Longrightarrow> fl_to_inactive K s = spec_inactive K s"
  by (auto simp: fl_to_inactive_def spec_inactive_def to_inactive_loop_map spec_shade_def
      split: list.splits)

lemma strlen_le: "strlen s \<le> length s"
  by (simp add: strlen_def length_takeWhile_le)

text \<open>
  As long as the selected pattern and its NUL fit the 26 bytes of \<open>buf\<close>, the pattern
  that is interpreted under inactive dimming is the selected pattern with each character
  \<open>c\<close> replaced by \<open>'M' + (c - 'A')/3\<close> (C division) and a leading \<open>'2'\<close> copied
  unchanged.
\<close>

lemma FrameBox_draw_inactive_in_buffer:
  assumes "\<not> rect_empty R" and "dimmed K st fl"
    and "NUL \<notin> set (selected_pattern K fb fl)"
    and "length (selected_pattern K fb fl) \<le> 25"
  shows "FrameBox_draw K fb R st fl
           = frame_spiral K st fl R (spec_inactive K (selected_pattern K fb fl))"
proof -
  have "strlen (selected_pattern K fb fl) \<le> 25"
    using assms(4) strlen_le [of "selected_pattern K fb fl"] by simp
  then have "FrameBox_draw K fb R st fl
               = frame_spiral K st fl R (fl_to_inactive K (selected_pattern K fb fl))"
    using assms(1,2)
    by (auto simp add: FrameBox_draw_def selected_pattern_def dimmed_def Let_def)
  then show ?thesis
    using fl_to_inactive_spec [OF assms(3)] by simp
qed

text \<open>Every character of \<open>WWHHPPAA\<close> is mapped by the formula, to \<open>TTOORRMM\<close>.\<close>

lemma fl_to_inactive_down_pattern:
  "fl_to_inactive K ''WWHHPPAA'' = map (spec_shade K) ''WWHHPPAA''"
  "fl_to_inactive sample_consts ''WWHHPPAA'' = ''TTOORRMM''"
  by (simp_all add: fl_to_inactive_def char_eval sample_flags)

text \<open>
  C6. When a \<open>FrameBox\<close> is drawn with \<open>INACTIVE\<close> set and the style's
  \<open>draw_boxes_inactive\<close> option on, the pattern that is interpreted is the selected
  pattern with each character \<open>c\<close> replaced by \<open>'M' + (c - 'A')/3\<close> and a leading
  \<open>'2'\<close> copied unchanged. The code attempts exactly this and misses it for long
  patterns: \<open>fl_to_inactive\<close> writes the remapped pattern and its NUL into
  \<open>char buf[26]\<close> and nothing checks the length. With a pattern of 26 characters the
  write runs one byte past the end of \<open>buf\<close>, where interpreting the remapped pattern
  on a rectangle of two by two pixels draws three edges.
\<close>

theorem FrameBox_draw_inactive_overflow:
  "FrameBox_draw sample_consts (FrameBox_ctor ''HHHHHHHHHHHHHHHHHHHHHHHHHH'' None)
      \<lparr>rect_x = 0, rect_y = 0, rect_w = 2, rect_h = 2\<rparr> sample_style 0x100
     = Inl BufferOverflow
   \<and> frame_spiral sample_consts sample_style 0x100
        \<lparr>rect_x = 0, rect_y = 0, rect_w = 2, rect_h = 2\<rparr>
        (spec_inactive sample_consts ''HHHHHHHHHHHHHHHHHHHHHHHHHH'')
     = Inr [SetColor 46, DrawLine 0 1 1 1, SetColor 46, DrawLine 1 0 1 0,
            SetColor 46, DrawLine 0 0 0 0]"
  by (simp add: frame_eval spec_inactive_def spec_shade_def cdiv_def char_of_eq_iff)

subsection \<open>HighlightBox\<close>

text \<open>
  C5. For every rectangle, style and flags value: if the flags have one of
  \<open>HIGHLIGHT\<close>, \<open>SELECTED\<close>, \<open>VALUE\<close>, \<open>PUSHED\<close> set, \<open>HighlightBox::_draw\<close> emits
  exactly what the \<open>draw\<close> of its sub-box \<open>down\<close> emits with the same arguments;
  otherwise it emits exactly what \<open>FlatBox::_draw\<close> emits with the same arguments;
  and \<open>HighlightBox::boxinfo()\<close> is the \<open>boxinfo()\<close> of the sub-box.
\<close>

theorem HighlightBox_delegates:
  "(fl AND (HIGHLIGHT K OR SELECTED K OR VALUE K OR PUSHED K) \<noteq> 0 \<longrightarrow>
      HighlightBox_draw K d r st fl = box_draw K d r st fl)
   \<and> (fl AND (HIGHLIGHT K OR SELECTED K OR VALUE K OR PUSHED K) = 0 \<longrightarrow>
      HighlightBox_draw K d r st fl = Inr (FlatBox_draw K r st fl))
   \<and> HighlightBox_boxinfo d = box_boxinfo d"
  by simp

theorem HighlightBox_delegates_witness:
  "HighlightBox_draw sample_consts THIN_UP_BOX \<lparr>rect_x = 0, rect_y = 0, rect_w = 4, rect_h = 4\<rparr>
      sample_style 0x400000
     = box_draw sample_consts THIN_UP_BOX \<lparr>rect_x = 0, rect_y = 0, rect_w = 4, rect_h = 4\<rparr>
         sample_style 0x400000
   \<and> HighlightBox_draw sample_consts THIN_UP_BOX \<lparr>rect_x = 0, rect_y = 0, rect_w = 4, rect_h = 4\<rparr>
      sample_style 0
     = Inr [SetColor 49, FillRect \<lparr>rect_x = 0, rect_y = 0, rect_w = 4, rect_h = 4\<rparr>]"
  using HighlightBox_delegates [of "0x400000" sample_consts THIN_UP_BOX
          "\<lparr>rect_x = 0, rect_y = 0, rect_w = 4, rect_h = 4\<rparr>" sample_style]
        HighlightBox_delegates [of 0 sample_consts THIN_UP_BOX
          "\<lparr>rect_x = 0, rect_y = 0, rect_w = 4, rect_h = 4\<rparr>" sample_style]
  by (simp add: sample_consts_def sample_style_def FlatBox_draw_def rect_empty_def)

section \<open>Properties of the status bar\<close>

lemma heap_upd [simp]: "heap (upd a f \<sigma>) b = (if b = a then f (heap \<sigma> a) else heap \<sigma> b)"
  by (simp add: upd_def)

lemma current_upd [simp]: "current (upd a f \<sigma>) = current \<sigma>"
  by (simp add: upd_def)

lemma sample_heap:
  "heap (sample_world pb) 10 = blank\<lparr>rect_w := 300, rect_h := 200, w_box := pb,
                     w_is_group := True, w_children := [11, 12, 13]\<rparr>"
  "heap (sample_world pb) 11 = blank\<lparr>rect_y := 150, rect_w := 100, rect_h := 40,
                     w_parent := Some 10\<rparr>"
  "heap (sample_world pb) 12 = blank\<lparr>rect_y := 100, rect_w := 100, rect_h := 50,
                     w_parent := Some 10\<rparr>"
  "heap (sample_world pb) 13 = blank\<lparr>rect_h := 24, w_parent := Some 10, w_box := THIN_DOWN_BOX,
                     w_is_group := True\<rparr>"
  by (simp_all add: sample_world_def)

lemma box_insets:
  "box_dx FLAT_BOX = 0" "box_dy FLAT_BOX = 0" "box_dw FLAT_BOX = 0" "box_dh FLAT_BOX = 0"
  "box_dx THIN_DOWN_BOX = 1" "box_dy THIN_DOWN_BOX = 1"
  "box_dw THIN_DOWN_BOX = 2" "box_dh THIN_DOWN_BOX = 2"
  by (simp_all add: box_dx_def box_dy_def box_dw_def box_dh_def FLAT_BOX_def THIN_DOWN_BOX_def
      FlatBox_boxinfo_def FrameBox_boxinfo_def thinDownBox_def FrameBox_ctor_def Let_def
      strlen_def NUL_def cdiv_def)

subsection \<open>The loops of \<open>resize_from_parent\<close>\<close>

text \<open>
  Running the loop body twice on a sibling gives what running it once gives, so the
  loop may meet a child any number of times.
\<close>

lemma sibling_step_idem: "sibling_step t (sibling_step t w) = sibling_step t w"
  by (auto simp: sibling_step_def Let_def rect_b_def)

lemma shrink_siblings_heap:
  "heap (shrink_siblings this ws \<sigma>) c =
     (if c \<in> set ws \<and> c \<noteq> this then sibling_step (rect_y (heap \<sigma> this)) (heap \<sigma> c)
      else heap \<sigma> c)"
proof (induction ws arbitrary: \<sigma>)
  case Nil
  show ?case by simp
next
  case (Cons w ws)
  show ?case
    by (simp add: Cons.IH Let_def Widget_resize_def Group_init_sizes_def sibling_step_idem)
       (auto simp: sibling_step_def Let_def rect_b_def)
qed

lemma update_box_other:
  "b \<noteq> Some c \<Longrightarrow> heap (update_box M this b pos \<sigma>) c = heap \<sigma> c"
  by (cases b; cases pos)
     (simp_all add: update_box_def Widget_resize_wh_def Widget_resize_def Let_def
       split: prod.splits)

lemma update_box_current [simp]: "current (update_box M this b pos \<sigma>) = current \<sigma>"
  by (cases b; cases pos)
     (simp_all add: update_box_def Widget_resize_wh_def Widget_resize_def Let_def
       split: prod.splits)

lemma update_box_self:
  "b \<noteq> this \<Longrightarrow>
   heap (update_box M this (Some b) pos \<sigma>) b =
     (let W = fst (M (heap \<sigma> b) (0, 0)) + (box_dw (sb_b (heap \<sigma> this) pos) + 1) * 2
      in (heap \<sigma> b)\<lparr>rect_w := W,
            rect_h := rect_h (heap \<sigma> this) - (box_dh (w_box (heap \<sigma> this)) + BORDER_WIDTH) * 2,
            rect_x := (case pos of
                SBAR_LEFT \<Rightarrow> box_dx (w_box (heap \<sigma> this))
              | SBAR_CENTER \<Rightarrow> cdiv (rect_r (heap \<sigma> this) - W) 2
              | SBAR_RIGHT \<Rightarrow> rect_r (heap \<sigma> this) - W - box_dw (w_box (heap \<sigma> this))
                                - BORDER_WIDTH)\<rparr>)"
  by (cases pos)
     (simp_all add: update_box_def Widget_resize_wh_def Widget_resize_def Let_def rect_r_def
       split: prod.splits)

lemma update_box_slot_x:
  "b \<noteq> this \<Longrightarrow>
   rect_x (heap (update_box M this (Some b) pos \<sigma>) b)
     = slot_x pos (heap \<sigma> this) (heap (update_box M this (Some b) pos \<sigma>) b)"
  by (cases pos) (simp_all add: update_box_self Let_def slot_x_def)

lemma update_boxes_other:
  "\<forall>pos. sb_tf (heap \<sigma> this) pos \<noteq> Some this \<Longrightarrow>
   \<forall>pos. sb_tf (heap \<sigma> this) pos \<noteq> Some c \<Longrightarrow>
   heap (update_boxes M this ps \<sigma>) c = heap \<sigma> c"
proof (induction ps arbitrary: \<sigma>)
  case Nil
  show ?case by simp
next
  case (Cons i ps)
  let ?\<sigma> = "update_box M this (sb_tf (heap \<sigma> this) i) i \<sigma>"
  have me: "heap ?\<sigma> this = heap \<sigma> this"
    using Cons.prems(1) by (simp add: update_box_other)
  have c: "heap ?\<sigma> c = heap \<sigma> c"
    using Cons.prems(2) by (simp add: update_box_other)
  show ?case
    using Cons.IH [of ?\<sigma>] Cons.prems by (simp add: me c)
qed

text \<open>
  The status bar and its siblings after \<open>resize_from_parent\<close>, in a widget tree: the
  parent is another widget than the bar, and the label boxes of the bar are neither the
  bar itself nor the widget looked at.
\<close>

lemma rfp_heap_this:
  assumes "w_parent (heap \<sigma> this) = Some p" and "p \<noteq> this"
    and "\<forall>pos. sb_tf (heap \<sigma> this) pos \<noteq> Some this"
  shows "heap (resize_from_parent M this \<sigma>) this =
           (heap \<sigma> this)\<lparr>rect_x := box_dx (w_box (heap \<sigma> p)),
                          rect_w := rect_w (heap \<sigma> p) - box_dw (w_box (heap \<sigma> p)),
                          rect_y := rect_h (heap \<sigma> p) - box_dh (w_box (heap \<sigma> p))
                                      - rect_h (heap \<sigma> this)\<rparr>"
  using assms
  by (simp add: resize_from_parent_def Let_def update_boxes_other shrink_siblings_heap
      del: update_boxes.simps)

lemma rfp_heap_sibling:
  assumes "w_parent (heap \<sigma> this) = Some p" and "p \<noteq> this" and "c \<noteq> this"
    and "\<forall>pos. sb_tf (heap \<sigma> this) pos \<noteq> Some this"
    and "\<forall>pos. sb_tf (heap \<sigma> this) pos \<noteq> Some c"
  shows "heap (resize_from_parent M this \<sigma>) c =
           (if c \<in> set (w_children (heap \<sigma> p))
            then sibling_step (rect_h (heap \<sigma> p) - box_dh (w_box (heap \<sigma> p))
                                      - rect_h (heap \<sigma> this)) (heap \<sigma> c)
            else heap \<sigma> c)"
  using assms
  by (simp add: resize_from_parent_def Let_def update_boxes_other shrink_siblings_heap
      del: update_boxes.simps)

subsection \<open>The geometry of the status bar\<close>

text \<open>
  With a parent, \<open>resize_from_parent()\<close> puts the left edge of the bar on the left edge
  of the parent's content rectangle, gives it the width of that rectangle, and leaves its
  height alone.
\<close>

lemma resize_from_parent_horizontal:
  assumes "w_parent (heap \<sigma> this) = Some p" and "p \<noteq> this"
    and "\<forall>pos. sb_tf (heap \<sigma> this) pos \<noteq> Some this"
  shows "rect_x (heap (resize_from_parent M this \<sigma>) this) = rect_x (content_rect (heap \<sigma> p))
       \<and> rect_w (heap (resize_from_parent M this \<sigma>) this) = rect_w (content_rect (heap \<sigma> p))
       \<and> rect_r (heap (resize_from_parent M this \<sigma>) this) = rect_r (content_rect (heap \<sigma> p))
       \<and> rect_h (heap (resize_from_parent M this \<sigma>) this) = rect_h (heap \<sigma> this)"
  by (simp add: rfp_heap_this [OF assms] content_rect_def rect_r_def)

text \<open>
  C1. For every \<open>StatusBarGroup\<close> that has a parent, after \<open>resize_from_parent()\<close> the
  group's \<open>x\<close> equals the parent's content-left inset, its width equals the parent's
  content width, its bottom edge \<open>y + h\<close> equals the bottom edge of the parent's content
  rectangle, and its height is unchanged. The code misses the bottom edge: on the line
  commented "bottom position" it computes \<open>y\<close> from the parent's height and \<open>box_dh\<close>
  and leaves out the top inset \<open>box_dy\<close>, where the horizontal axis does take \<open>box_dx\<close>
  into account. In a parent of 300 by 200 pixels whose box is the thin down box
  (\<open>dx = dy = 1\<close>, \<open>dw = dh = 2\<close>) the bar is flush with the content rectangle on
  the left and on the right, and ends at 198 where the content rectangle ends at 199.
\<close>

theorem resize_from_parent_bottom_gap:
  "w_parent (heap (sample_world THIN_DOWN_BOX) 13) = Some 10
   \<and> content_rect (heap (sample_world THIN_DOWN_BOX) 10)
       = \<lparr>rect_x = 1, rect_y = 1, rect_w = 298, rect_h = 198\<rparr>
   \<and> rect_x (heap (resize_from_parent sample_measure 13 (sample_world THIN_DOWN_BOX)) 13) = 1
   \<and> rect_y (heap (resize_from_parent sample_measure 13 (sample_world THIN_DOWN_BOX)) 13) = 174
   \<and> rect_w (heap (resize_from_parent sample_measure 13 (sample_world THIN_DOWN_BOX)) 13) = 298
   \<and> rect_h (heap (resize_from_parent sample_measure 13 (sample_world THIN_DOWN_BOX)) 13) = 24
   \<and> rect_b (heap (resize_from_parent sample_measure 13 (sample_world THIN_DOWN_BOX)) 13) = 198
   \<and> rect_b (content_rect (heap (sample_world THIN_DOWN_BOX) 10)) = 199"
proof -
  have "heap (resize_from_parent sample_measure 13 (sample_world THIN_DOWN_BOX)) 13
          = (heap (sample_world THIN_DOWN_BOX) 13)\<lparr>rect_x := 1, rect_w := 298, rect_y := 174\<rparr>"
    by (subst rfp_heap_this [where p = 10])
       (simp_all add: sample_heap blank_def box_insets)
  then show ?thesis
    by (simp add: sample_heap blank_def content_rect_def box_insets rect_b_def)
qed

subsection \<open>The siblings of the status bar\<close>

text \<open>
  C3. During \<open>resize_from_parent()\<close>, for every child of the parent other than the
  status bar itself: with \<open>overlap\<close> the child's bottom edge less the new top edge of
  the bar, if \<open>overlap > 0\<close> the child's height is reduced by \<open>overlap\<close> and floored at
  0, its \<open>x\<close>, \<open>y\<close> and width staying as they are, and if \<open>overlap \<le> 0\<close> the child is
  untouched. With a parent whose content rectangle is \<open>(0, 0, 300, 200)\<close> and a bar of
  height 24 the bar becomes \<open>(0, 176, 300, 24)\<close>, a sibling at \<open>y = 150\<close> of height 40 is
  shrunk to height 26, and a sibling at \<open>y = 100\<close> of height 50 is unchanged.
\<close>

theorem resize_from_parent_siblings:
  "(w_parent (heap \<sigma> this) = Some p \<and> p \<noteq> this
      \<and> c \<in> set (w_children (heap \<sigma> p)) \<and> c \<noteq> this
      \<and> (\<forall>pos. sb_tf (heap \<sigma> this) pos \<noteq> Some this)
      \<and> (\<forall>pos. sb_tf (heap \<sigma> this) pos \<noteq> Some c) \<longrightarrow>
    (let \<sigma>' = resize_from_parent M this \<sigma>;
         overlap = rect_b (heap \<sigma> c) - rect_y (heap \<sigma>' this)
     in rect_x (heap \<sigma>' c) = rect_x (heap \<sigma> c)
        \<and> rect_y (heap \<sigma>' c) = rect_y (heap \<sigma> c)
        \<and> rect_w (heap \<sigma>' c) = rect_w (heap \<sigma> c)
        \<and> rect_h (heap \<sigma>' c)
            = (if 0 < overlap then max 0 (rect_h (heap \<sigma> c) - overlap) else rect_h (heap \<sigma> c))
        \<and> (overlap \<le> 0 \<longrightarrow> heap \<sigma>' c = heap \<sigma> c)))
   \<and> (let \<sigma>0 = sample_world FLAT_BOX; \<sigma>' = resize_from_parent M 13 \<sigma>0
      in content_rect (heap \<sigma>0 10) = \<lparr>rect_x = 0, rect_y = 0, rect_w = 300, rect_h = 200\<rparr>
         \<and> rect_h (heap \<sigma>0 13) = 24
         \<and> rect_y (heap \<sigma>0 11) = 150 \<and> rect_h (heap \<sigma>0 11) = 40
         \<and> rect_y (heap \<sigma>0 12) = 100 \<and> rect_h (heap \<sigma>0 12) = 50
         \<and> rect_x (heap \<sigma>' 13) = 0 \<and> rect_y (heap \<sigma>' 13) = 176
         \<and> rect_w (heap \<sigma>' 13) = 300 \<and> rect_h (heap \<sigma>' 13) = 24
         \<and> rect_y (heap \<sigma>' 11) = 150 \<and> rect_h (heap \<sigma>' 11) = 26
         \<and> heap \<sigma>' 12 = heap \<sigma>0 12)"
proof (intro conjI impI)
  assume a: "w_parent (heap \<sigma> this) = Some p \<and> p \<noteq> this
      \<and> c \<in> set (w_children (heap \<sigma> p)) \<and> c \<noteq> this
      \<and> (\<forall>pos. sb_tf (heap \<sigma> this) pos \<noteq> Some this)
      \<and> (\<forall>pos. sb_tf (heap \<sigma> this) pos \<noteq> Some c)"
  then have me: "heap (resize_from_parent M this \<sigma>) this =
           (heap \<sigma> this)\<lparr>rect_x := box_dx (w_box (heap \<sigma> p)),
                          rect_w := rect_w (heap \<sigma> p) - box_dw (w_box (heap \<sigma> p)),
                          rect_y := rect_h (heap \<sigma> p) - box_dh (w_box (heap \<sigma> p))
                                      - rect_h (heap \<sigma> this)\<rparr>"
    by (intro rfp_heap_this) simp_all
  from a have sib: "heap (resize_from_parent M this \<sigma>) c =
           sibling_step (rect_h (heap \<sigma> p) - box_dh (w_box (heap \<sigma> p))
                                      - rect_h (heap \<sigma> this)) (heap \<sigma> c)"
    by (subst rfp_heap_sibling [where p = p]) simp_all
  show "let \<sigma>' = resize_from_parent M this \<sigma>;
         overlap = rect_b (heap \<sigma> c) - rect_y (heap \<sigma>' this)
     in rect_x (heap \<sigma>' c) = rect_x (heap \<sigma> c)
        \<and> rect_y (heap \<sigma>' c) = rect_y (heap \<sigma> c)
        \<and> rect_w (heap \<sigma>' c) = rect_w (heap \<sigma> c)
        \<and> rect_h (heap \<sigma>' c)
            = (if 0 < overlap then max 0 (rect_h (heap \<sigma> c) - overlap) else rect_h (heap \<sigma> c))
        \<and> (overlap \<le> 0 \<longrightarrow> heap \<sigma>' c = heap \<sigma> c)"
    by (simp add: Let_def me sib sibling_step_def)
next
  have me: "heap (resize_from_parent M 13 (sample_world FLAT_BOX)) 13
          = (heap (sample_world FLAT_BOX) 13)\<lparr>rect_x := 0, rect_w := 300, rect_y := 176\<rparr>"
    by (subst rfp_heap_this [where p = 10])
       (simp_all add: sample_heap blank_def box_insets)
  have sib: "heap (resize_from_parent M 13 (sample_world FLAT_BOX)) c
          = sibling_step 176 (heap (sample_world FLAT_BOX) c)" if "c = 11 \<or> c = 12" for c
    using that
    by (subst rfp_heap_sibling [where p = 10])
       (auto simp add: sample_heap blank_def box_insets)
  show "let \<sigma>0 = sample_world FLAT_BOX; \<sigma>' = resize_from_parent M 13 \<sigma>0
      in content_rect (heap \<sigma>0 10) = \<lparr>rect_x = 0, rect_y = 0, rect_w = 300, rect_h = 200\<rparr>
         \<and> rect_h (heap \<sigma>0 13) = 24
         \<and> rect_y (heap \<sigma>0 11) = 150 \<and> rect_h (heap \<sigma>0 11) = 40
         \<and> rect_y (heap \<sigma>0 12) = 100 \<and> rect_h (heap \<sigma>0 12) = 50
         \<and> rect_x (heap \<sigma>' 13) = 0 \<and> rect_y (heap \<sigma>' 13) = 176
         \<and> rect_w (heap \<sigma>' 13) = 300 \<and> rect_h (heap \<sigma>' 13) = 24
         \<and> rect_y (heap \<sigma>' 11) = 150 \<and> rect_h (heap \<sigma>' 11) = 26
         \<and> heap \<sigma>' 12 = heap \<sigma>0 12"
    by (simp add: Let_def me sib sibling_step_def sample_heap blank_def content_rect_def
        box_insets rect_b_def)
qed

text \<open>
  In a parent with the thin down box the bar's top edge is at 174: the sibling ending at
  190 is cut to height 24, the sibling ending at 150 is left alone.
\<close>

theorem resize_from_parent_siblings_witness:
  "rect_h (heap (resize_from_parent sample_measure 13 (sample_world THIN_DOWN_BOX)) 11) = 24
   \<and> rect_y (heap (resize_from_parent sample_measure 13 (sample_world THIN_DOWN_BOX)) 11) = 150
   \<and> heap (resize_from_parent sample_measure 13 (sample_world THIN_DOWN_BOX)) 12
       = heap (sample_world THIN_DOWN_BOX) 12"
proof -
  have me: "rect_y (heap (resize_from_parent sample_measure 13 (sample_world THIN_DOWN_BOX)) 13)
              = 174"
    by (subst rfp_heap_this [where p = 10])
       (simp_all add: sample_heap blank_def box_insets)
  show ?thesis
    using resize_from_parent_siblings
            [THEN conjunct1, of "sample_world THIN_DOWN_BOX" 13 10 11 sample_measure]
          resize_from_parent_siblings
            [THEN conjunct1, of "sample_world THIN_DOWN_BOX" 13 10 12 sample_measure]
    by (simp add: Let_def me sample_heap blank_def rect_b_def)
qed

subsection \<open>A status bar without a parent\<close>

text \<open>
  C10. If a \<open>StatusBarGroup\<close> has no parent, \<open>resize_from_parent()\<close> returns at once: the
  group's \<open>x\<close>, \<open>y\<close>, width and height, its three label boxes and everything else are as
  before.
\<close>

theorem resize_from_parent_no_parent:
  "w_parent (heap \<sigma> this) = None \<Longrightarrow> resize_from_parent M this \<sigma> = \<sigma>"
  by (simp add: resize_from_parent_def)

theorem resize_from_parent_no_parent_witness:
  "resize_from_parent sample_measure 13
       (upd 13 (\<lambda>w. w\<lparr>w_parent := None\<rparr>) (sample_world FLAT_BOX))
     = upd 13 (\<lambda>w. w\<lparr>w_parent := None\<rparr>) (sample_world FLAT_BOX)"
  using resize_from_parent_no_parent
          [of "upd 13 (\<lambda>w. w\<lparr>w_parent := None\<rparr>) (sample_world FLAT_BOX)" 13 sample_measure]
  by simp

subsection \<open>The label slots\<close>

lemma c_empty_simps:
  "c_empty None" "c_empty (Some [])" "\<not> c_empty (Some (CHR ''H'' # s))"
  "\<not> c_empty (Some (CHR ''O'' # s))" "\<not> c_empty (Some (CHR ''5'' # s))"
  by (simp_all add: c_empty_def NUL_def)

lemma set_text_empty:
  "c_empty e \<Longrightarrow>
   set_text K M this a e pos \<sigma> =
     (case sb_tf (heap \<sigma> this) pos of
        None \<Rightarrow> \<sigma>
      | Some b \<Rightarrow> upd this (\<lambda>w. w\<lparr>sb_tf := (sb_tf w)(pos := None)\<rparr>) (Widget_delete b \<sigma>))"
  by (simp add: set_text_def Let_def split: option.splits)

text \<open>
  After \<open>set\<close> with a non-empty text the slot holds a box, which carries the text and
  sits where \<open>update_box\<close> puts it.
\<close>

lemma set_text_nonempty_slot:
  assumes "\<not> c_empty (Some t)" and "a \<noteq> this"
    and "\<forall>pos. sb_tf (heap \<sigma> this) pos \<noteq> Some this"
  shows "\<exists>b. b \<noteq> this \<and> sb_tf (heap (set_text K M this a (Some t) pos \<sigma>) this) pos = Some b
           \<and> (sb_tf (heap \<sigma> this) pos = None \<longrightarrow> b = a)
           \<and> w_label (heap (set_text K M this a (Some t) pos \<sigma>) b) = Some (cstring t)
           \<and> rect_x (heap (set_text K M this a (Some t) pos \<sigma>) b)
               = slot_x pos (heap (set_text K M this a (Some t) pos \<sigma>) this)
                   (heap (set_text K M this a (Some t) pos \<sigma>) b)"
proof (cases "sb_tf (heap \<sigma> this) pos")
  case None
  then show ?thesis
    using assms
    by (cases pos)
       (simp_all add: set_text_def Let_def InvisibleBox_new_def Group_add_def Widget_redraw_def
        update_box_other update_box_self slot_x_def rect_r_def)
next
  case (Some b)
  with assms(3) have "b \<noteq> this"
    by auto
  with Some show ?thesis
    using assms
    by (cases pos)
       (simp_all add: set_text_def Let_def Widget_redraw_def update_box_other update_box_self
         slot_x_def rect_r_def)
qed

text \<open>What \<open>set\<close> with a non-empty text does when the slot is empty.\<close>

lemma set_text_fresh:
  assumes "\<not> c_empty (Some t)" and "a \<noteq> this" and "sb_tf (heap \<sigma> this) pos = None"
  shows "heap (set_text K M this a (Some t) pos \<sigma>) this
           = (heap \<sigma> this)\<lparr>sb_tf := (sb_tf (heap \<sigma> this))(pos := Some a),
                           w_children := w_children (heap \<sigma> this) @ [a],
                           w_redraw := True\<rparr>"
    and "w_parent (heap (set_text K M this a (Some t) pos \<sigma>) a) = Some this"
    and "c \<noteq> this \<Longrightarrow> c \<noteq> a \<Longrightarrow> heap (set_text K M this a (Some t) pos \<sigma>) c = heap \<sigma> c"
    and "current (set_text K M this a (Some t) pos \<sigma>) = None"
  using assms
  by (simp_all add: set_text_def Let_def InvisibleBox_new_def Group_add_def Widget_redraw_def
        update_box_other update_box_self)

lemma set_then_empty_slot:
  assumes "\<not> c_empty (Some t)" and "c_empty e" and "a \<noteq> this"
    and "\<forall>pos. sb_tf (heap \<sigma> this) pos \<noteq> Some this"
  shows "sb_tf (heap (set_text K M this a e pos (set_text K M this a (Some t) pos \<sigma>)) this) pos
           = None"
proof -
  from set_text_nonempty_slot [OF assms(1,3,4), of K M pos]
  obtain b where "sb_tf (heap (set_text K M this a (Some t) pos \<sigma>) this) pos = Some b"
    by blast
  then show ?thesis
    by (simp add: set_text_empty [OF assms(2)])
qed

lemma sample_occupied_slot: "sb_tf (heap sample_occupied 13) SBAR_RIGHT = Some 14"
  using set_text_nonempty_slot [of "''Old''" 14 13 "sample_world FLAT_BOX" sample_consts
          sample_measure SBAR_RIGHT]
  by (auto simp add: sample_occupied_def c_empty_simps sample_heap blank_def)

lemma sample_occupied_wf: "sb_tf (heap sample_occupied 13) pos \<noteq> Some 13"
  by (simp add: sample_occupied_def set_text_fresh c_empty_simps sample_heap blank_def)

text \<open>
  C8, amended. For every slot position, \<open>set\<close> with a non-empty text followed by
  \<open>set\<close> with an empty or null text at the same position leaves no box allocated at that
  slot. If the slot was empty before the first call, the two calls leave the status bar
  as it was but for the redraw the first call asked for (its slots, its children and its
  geometry are as before), leave every other widget as it was, and leave
  \<open>Group::current()\<close> null; the box made by the first call is gone. \<open>set\<close> with an
  empty text on an empty slot changes nothing.
\<close>

theorem set_text_clear:
  assumes "\<not> c_empty (Some t)" and "c_empty e" and "a \<noteq> this"
    and "\<forall>pos. sb_tf (heap \<sigma> this) pos \<noteq> Some this"
  shows "sb_tf (heap (set_text K M this a e pos (set_text K M this a (Some t) pos \<sigma>)) this) pos
           = None
       \<and> (sb_tf (heap \<sigma> this) pos = None \<and> a \<notin> set (w_children (heap \<sigma> this)) \<longrightarrow>
            heap (set_text K M this a e pos (set_text K M this a (Some t) pos \<sigma>)) this
              = (heap \<sigma> this)\<lparr>w_redraw := True\<rparr>
          \<and> (\<forall>c. c \<noteq> this \<and> c \<noteq> a \<longrightarrow>
                heap (set_text K M this a e pos (set_text K M this a (Some t) pos \<sigma>)) c
                  = heap \<sigma> c)
          \<and> current (set_text K M this a e pos (set_text K M this a (Some t) pos \<sigma>)) = None)
       \<and> (sb_tf (heap \<sigma> this) pos = None \<longrightarrow> set_text K M this a e pos \<sigma> = \<sigma>)"
proof (intro conjI impI allI)
  show "sb_tf (heap (set_text K M this a e pos (set_text K M this a (Some t) pos \<sigma>)) this) pos
           = None"
    by (rule set_then_empty_slot [OF assms])
next
  assume "sb_tf (heap \<sigma> this) pos = None"
  then show "set_text K M this a e pos \<sigma> = \<sigma>"
    by (simp add: set_text_empty [OF assms(2)])
next
  assume f: "sb_tf (heap \<sigma> this) pos = None \<and> a \<notin> set (w_children (heap \<sigma> this))"
  note fresh = set_text_fresh [OF assms(1,3) f [THEN conjunct1], where K = K and M = M]
  show "heap (set_text K M this a e pos (set_text K M this a (Some t) pos \<sigma>)) this
              = (heap \<sigma> this)\<lparr>w_redraw := True\<rparr>"
    using f
    by (simp add: set_text_empty [OF assms(2)] fresh Widget_delete_def remove1_append
        fun_upd_idem)
next
  assume f: "sb_tf (heap \<sigma> this) pos = None \<and> a \<notin> set (w_children (heap \<sigma> this))"
  note fresh = set_text_fresh [OF assms(1,3) f [THEN conjunct1], where K = K and M = M]
  show "current (set_text K M this a e pos (set_text K M this a (Some t) pos \<sigma>)) = None"
    by (simp add: set_text_empty [OF assms(2)] fresh Widget_delete_def)
next
  fix c
  assume f: "sb_tf (heap \<sigma> this) pos = None \<and> a \<notin> set (w_children (heap \<sigma> this))"
    and c: "c \<noteq> this \<and> c \<noteq> a"
  note fresh = set_text_fresh [OF assms(1,3) f [THEN conjunct1], where K = K and M = M]
  show "heap (set_text K M this a e pos (set_text K M this a (Some t) pos \<sigma>)) c = heap \<sigma> c"
    using c
    by (simp add: set_text_empty [OF assms(2)] fresh Widget_delete_def)
qed

theorem set_text_clear_witness:
  "sb_tf (heap (set_text sample_consts sample_measure 13 14 None SBAR_RIGHT
       (set_text sample_consts sample_measure 13 14 (Some ''Hello'') SBAR_RIGHT
          (sample_world FLAT_BOX))) 13) SBAR_RIGHT = None
   \<and> heap (set_text sample_consts sample_measure 13 14 None SBAR_RIGHT
       (set_text sample_consts sample_measure 13 14 (Some ''Hello'') SBAR_RIGHT
          (sample_world FLAT_BOX))) 13 = (heap (sample_world FLAT_BOX) 13)\<lparr>w_redraw := True\<rparr>
   \<and> set_text sample_consts sample_measure 13 14 None SBAR_RIGHT (sample_world FLAT_BOX)
       = sample_world FLAT_BOX"
  using set_text_clear [of "''Hello''" None 14 13 "sample_world FLAT_BOX" sample_consts
          sample_measure SBAR_RIGHT]
  by (simp add: c_empty_simps sample_heap blank_def)

text \<open>
  The claim as stated has the two calls restore the state that held before the first
  one, for every slot. When the slot holds a box before the first call, as the right
  slot of \<open>sample_occupied\<close> does, the first call only replaces its text and the second
  destroys it: the slot that was occupied is empty afterwards.
\<close>

theorem set_text_clear_occupied_counterexample:
  "sb_tf (heap sample_occupied 13) SBAR_RIGHT = Some 14
   \<and> sb_tf (heap (set_text sample_consts sample_measure 13 15 (Some []) SBAR_RIGHT
        (set_text sample_consts sample_measure 13 15 (Some ''Hello'') SBAR_RIGHT
           sample_occupied)) 13) SBAR_RIGHT = None"
  using set_then_empty_slot [of "''Hello''" "Some []" 15 13 sample_occupied sample_consts
          sample_measure SBAR_RIGHT]
  by (simp add: sample_occupied_slot sample_occupied_wf c_empty_simps)

subsection \<open>The formatted setter\<close>

lemma vsprintf_items: "vsprintf ''%d items'' [5] = Inr ''5 items''"
  by (simp add: NUL_def decimal_def char_of_eq_iff)

text \<open>
  C9. The call \<open>set(SBAR_CENTER, "%d items", 5)\<close> stores the text \<open>5 items\<close> in the box
  of the centre slot, and \<open>update_box\<close> puts the centre slot at
  \<open>x = (r() - slot width)/2\<close>, with \<open>r()\<close> the right edge of the status bar and no inset
  taken off, whereas the left slot is put at the bar's \<open>box_dx\<close> and the right slot at
  \<open>r() - slot width - box_dw - BORDER_WIDTH\<close>.
\<close>

theorem set_fmt_center:
  assumes "a \<noteq> this" and "\<forall>pos. sb_tf (heap \<sigma> this) pos \<noteq> Some this"
  shows "(\<exists>\<sigma>' b. set_fmt K M this a SBAR_CENTER ''%d items'' [5] \<sigma> = Inr \<sigma>'
            \<and> sb_tf (heap \<sigma>' this) SBAR_CENTER = Some b
            \<and> w_label (heap \<sigma>' b) = Some ''5 items''
            \<and> rect_x (heap \<sigma>' b) = cdiv (rect_r (heap \<sigma>' this) - rect_w (heap \<sigma>' b)) 2)
       \<and> (\<forall>b. b \<noteq> this \<longrightarrow>
            rect_x (heap (update_box M this (Some b) SBAR_LEFT \<sigma>) b)
              = box_dx (w_box (heap \<sigma> this))
          \<and> rect_x (heap (update_box M this (Some b) SBAR_CENTER \<sigma>) b)
              = cdiv (rect_r (heap \<sigma> this)
                      - rect_w (heap (update_box M this (Some b) SBAR_CENTER \<sigma>) b)) 2
          \<and> rect_x (heap (update_box M this (Some b) SBAR_RIGHT \<sigma>) b)
              = rect_r (heap \<sigma> this)
                - rect_w (heap (update_box M this (Some b) SBAR_RIGHT \<sigma>) b)
                - box_dw (w_box (heap \<sigma> this)) - BORDER_WIDTH)"
proof (intro conjI allI impI)
  have ne: "\<not> c_empty (Some ''5 items'')"
    by (rule c_empty_simps)
  have cs: "cstring ''5 items'' = ''5 items''"
    by (simp add: cstring_def NUL_def)
  let ?\<sigma> = "set_text K M this a (Some ''5 items'') SBAR_CENTER \<sigma>"
  from set_text_nonempty_slot [OF ne assms, of K M SBAR_CENTER]
  obtain b where b: "sb_tf (heap ?\<sigma> this) SBAR_CENTER = Some b"
      "w_label (heap ?\<sigma> b) = Some ''5 items''"
      "rect_x (heap ?\<sigma> b) = slot_x SBAR_CENTER (heap ?\<sigma> this) (heap ?\<sigma> b)"
    unfolding cs by blast
  have "set_fmt K M this a SBAR_CENTER ''%d items'' [5] \<sigma> = Inr ?\<sigma>"
    by (simp add: set_fmt_def vsprintf_items del: vsprintf.simps)
  with b show "\<exists>\<sigma>' b. set_fmt K M this a SBAR_CENTER ''%d items'' [5] \<sigma> = Inr \<sigma>'
            \<and> sb_tf (heap \<sigma>' this) SBAR_CENTER = Some b
            \<and> w_label (heap \<sigma>' b) = Some ''5 items''
            \<and> rect_x (heap \<sigma>' b) = cdiv (rect_r (heap \<sigma>' this) - rect_w (heap \<sigma>' b)) 2"
    by (intro exI [of _ ?\<sigma>] exI [of _ b]) (simp add: slot_x_def)
qed (simp_all add: update_box_slot_x slot_x_def)

theorem set_fmt_center_witness:
  "\<exists>\<sigma>' b. set_fmt sample_consts sample_measure 13 14 SBAR_CENTER ''%d items'' [5]
              (sample_world FLAT_BOX) = Inr \<sigma>'
      \<and> sb_tf (heap \<sigma>' 13) SBAR_CENTER = Some b
      \<and> w_label (heap \<sigma>' b) = Some ''5 items''
      \<and> rect_x (heap \<sigma>' b) = cdiv (rect_r (heap \<sigma>' 13) - rect_w (heap \<sigma>' b)) 2"
  using set_fmt_center [of 14 13 "sample_world FLAT_BOX" sample_consts sample_measure]
  by (simp add: sample_heap blank_def)

end
